(* ===== verification/Prelude.thy ===== *)
theory Prelude
  imports Main "HOL-Library.Word" "HOL-Library.Sublist"
begin

text \<open>
  Shared vocabulary of the development. The server is JavaScript, so its strings are
  sequences of UTF-16 code units: a code unit is a \<open>16 word\<close> and a string is a list
  of them (\<open>jstr\<close>). The JavaScript runtime functions the handler calls
  (\<open>String.prototype.trim\<close>, \<open>split('\n')\<close>, \<open>substring\<close>,
  \<open>Array.prototype.join\<close>) are defined here from the ECMAScript specification; they
  are not code of the repository. ASCII literals of the source are written with \<open>js\<close>.
  The collection \<open>js_simps\<close> gathers the equations that evaluate these functions on
  concrete strings.
\<close>

named_theorems js_simps "equations that evaluate the JavaScript runtime functions"

type_synonym cu = "16 word"
type_synonym jstr = "cu list"

section \<open>Code units and literals\<close>

definition js :: "string \<Rightarrow> jstr" where
  "js s = map (\<lambda>c. of_nat (of_char c)) s"

abbreviation cu_nl :: cu where "cu_nl \<equiv> 0x0A"
abbreviation cu_star :: cu where "cu_star \<equiv> 0x2A"

text \<open>
  ECMAScript WhiteSpace and LineTerminator code points: the set that \<open>\s\<close> matches in
  a regular expression and that \<open>trim\<close> removes.
\<close>

definition js_ws :: "cu \<Rightarrow> bool" where
  "js_ws c \<longleftrightarrow> c \<in> set [0x09, 0x0A, 0x0B, 0x0C, 0x0D, 0x20, 0xA0, 0x1680,
      0x2028, 0x2029, 0x202F, 0x205F, 0x3000, 0xFEFF] \<or> (0x2000 \<le> c \<and> c \<le> 0x200A)"

section \<open>String.prototype functions\<close>

text \<open>An ASCII decimal digit, the class \<open>\d\<close> of a regular expression.\<close>

definition is_digit :: "cu \<Rightarrow> bool" where
  "is_digit c \<longleftrightarrow> 0x30 \<le> c \<and> c \<le> 0x39"

text \<open>The value of a run of ASCII digits, as \<open>parseInt\<close> reads it.\<close>

definition parse_int :: "jstr \<Rightarrow> nat" where
  "parse_int ds = foldl (\<lambda>n c. 10 * n + (unat c - 48)) 0 ds"

definition js_trim :: "jstr \<Rightarrow> jstr" where
  "js_trim s = rev (dropWhile js_ws (rev (dropWhile js_ws s)))"

text \<open>\<open>s.split(d)\<close> for a one-unit separator \<open>d\<close>: always at least one piece.\<close>

fun split_on :: "cu \<Rightarrow> jstr \<Rightarrow> jstr list" where
  "split_on d [] = [[]]"
| "split_on d (c # cs) =
     (if c = d then [] # split_on d cs
      else (case split_on d cs of [] \<Rightarrow> [[c]] | l # ls \<Rightarrow> (c # l) # ls))"

text \<open>\<open>s.substring(a, b)\<close>: both ends clamped to the length, swapped when reversed.\<close>

definition js_substring :: "jstr \<Rightarrow> nat \<Rightarrow> nat \<Rightarrow> jstr" where
  "js_substring s a b =
     (let a' = min a (length s); b' = min b (length s)
      in take (max a' b' - min a' b') (drop (min a' b') s))"

text \<open>\<open>xs.join(sep)\<close> on a list of already converted strings.\<close>

fun js_join :: "jstr \<Rightarrow> jstr list \<Rightarrow> jstr" where
  "js_join sep [] = []"
| "js_join sep [x] = x"
| "js_join sep (x # y # xs) = x @ sep @ js_join sep (y # xs)"

section \<open>Backtracking choice\<close>

text \<open>
  The first alternative, in the given order, that succeeds: the way a backtracking
  regular-expression matcher tries the counts of a quantifier.
\<close>

fun first_some :: "(nat \<Rightarrow> 'a option) \<Rightarrow> nat list \<Rightarrow> 'a option" where
  "first_some f [] = None"
| "first_some f (i # ns) = (case f i of None \<Rightarrow> first_some f ns | Some r \<Rightarrow> Some r)"

section \<open>Generic lemmas\<close>

lemma js_Nil [simp, js_simps]: "js [] = []"
  and js_Cons [simp, js_simps]: "js (c # s) = of_nat (of_char c) # js s"
  and js_append [simp]: "js (s @ t) = js s @ js t"
  and length_js [simp]: "length (js s) = length s"
  and js_eq_Nil [simp]: "js s = [] \<longleftrightarrow> s = []"
  by (simp_all add: js_def)

lemma rev_dropWhile_rev_prefix:
  "rev (dropWhile P (rev xs)) @ rev (takeWhile P (rev xs)) = xs"
  by (metis rev_append rev_rev_ident takeWhile_dropWhile_id)

lemma js_trim_no_leading: "js_trim s = c # r \<Longrightarrow> \<not> js_ws c"
proof -
  assume h: "js_trim s = c # r"
  let ?d = "dropWhile js_ws s"
  have "?d = c # r @ rev (takeWhile js_ws (rev ?d))"
    using rev_dropWhile_rev_prefix [of js_ws ?d] h by (simp add: js_trim_def)
  then obtain t where t: "?d = c # t" by blast
  show ?thesis
    using hd_dropWhile [of js_ws s] t by (metis list.distinct(1) list.sel(1))
qed

lemma js_trim_Nil [simp, js_simps]: "js_trim [] = []"
  by (simp add: js_trim_def)

lemma set_js_trim: "set (js_trim s) \<subseteq> set s"
proof
  fix x assume "x \<in> set (js_trim s)"
  then have "x \<in> set (dropWhile js_ws (rev (dropWhile js_ws s)))" by (simp add: js_trim_def)
  then have "x \<in> set (dropWhile js_ws s)" by (auto dest: set_dropWhileD)
  then show "x \<in> set s" by (auto dest: set_dropWhileD)
qed

lemma split_on_nonempty [simp]: "split_on d s \<noteq> []"
  by (induction s) (auto split: list.split)

lemma split_on_no_sep: "l \<in> set (split_on d s) \<Longrightarrow> d \<notin> set l"
proof (induction s arbitrary: l)
  case Nil
  then show ?case by simp
next
  case (Cons c cs)
  then show ?case by (auto split: if_splits list.splits)
qed

text \<open>Splitting and joining back with the separator is the identity.\<close>

lemma js_join_split_on: "js_join [d] (split_on d s) = s"
proof (induction s)
  case Nil
  then show ?case by simp
next
  case (Cons c cs)
  show ?case
  proof (cases "c = d")
    case True
    with Cons.IH show ?thesis
      by (cases "split_on d cs") simp_all
  next
    case False
    obtain l ls where eq: "split_on d cs = l # ls"
      using split_on_nonempty by (cases "split_on d cs") blast+
    from Cons.IH eq False show ?thesis
      by (cases ls) simp_all
  qed
qed

lemma js_substring_prefix: "a \<le> b \<Longrightarrow> b \<le> length s \<Longrightarrow> js_substring s a b = take (b - a) (drop a s)"
  by (simp add: js_substring_def)

lemma list_all_take [intro]: "list_all P xs \<Longrightarrow> list_all P (take n xs)"
  by (auto simp: list_all_iff dest: in_set_takeD)

lemma sublist_js_trim [intro]: "sublist (js_trim s) s"
proof -
  have "sublist (dropWhile js_ws (rev (dropWhile js_ws s))) (rev (dropWhile js_ws s))" ..
  then have "sublist (js_trim s) (dropWhile js_ws s)"
    by (simp add: js_trim_def sublist_rev_left)
  then show ?thesis by (rule sublist_order.order_trans) simp
qed

lemma sublist_append_right [intro]: "sublist x z \<Longrightarrow> sublist x (y @ z)"
proof -
  assume "sublist x z"
  moreover have "sublist z (y @ z)" by simp
  ultimately show ?thesis by (rule sublist_order.order_trans)
qed

lemma sublist_Cons_rightI [intro]: "sublist x z \<Longrightarrow> sublist x (a # z)"
  by (simp add: sublist_Cons_right)

lemma split_on_hd_prefix: "split_on d s = l # ls \<Longrightarrow> prefix l s"
proof (induction s arbitrary: l ls)
  case (Cons c cs)
  then show ?case by (auto split: if_splits list.splits)
qed simp

lemma sublist_split_on: "l \<in> set (split_on d s) \<Longrightarrow> sublist l s"
proof (induction s arbitrary: l)
  case (Cons c cs)
  show ?case
  proof (cases "c = d")
    case True
    with Cons show ?thesis by (auto simp: sublist_Cons_right)
  next
    case False
    obtain l0 ls where eq: "split_on d cs = l0 # ls"
      by (cases "split_on d cs") simp_all
    from Cons.prems False eq have "l = c # l0 \<or> l \<in> set ls" by simp
    then show ?thesis
    proof
      assume "l = c # l0"
      with split_on_hd_prefix [OF eq] show ?thesis by simp
    next
      assume "l \<in> set ls"
      with eq Cons.IH have "sublist l cs" by simp
      then show ?thesis by (simp add: sublist_Cons_right)
    qed
  qed
qed simp

lemma sublist_js_substring [intro]: "sublist (js_substring s a b) s"
proof -
  have "sublist (js_substring s a b) (drop (min (min a (length s)) (min b (length s))) s)"
    by (simp add: js_substring_def Let_def)
  then show ?thesis by (rule sublist_order.order_trans) simp
qed

lemma first_some_Some: "first_some f ns = Some r \<Longrightarrow> \<exists>i \<in> set ns. f i = Some r"
  by (induction ns) (auto split: option.splits)

lemma first_some_None: "first_some f ns = None \<longleftrightarrow> (\<forall>i \<in> set ns. f i = None)"
  by (induction ns) (auto split: option.splits)

lemma first_some_append:
  "first_some f (xs @ ys) = (case first_some f xs of None \<Rightarrow> first_some f ys | Some r \<Rightarrow> Some r)"
  by (induction xs) (auto split: option.splits)

end
