(* ===== verification/JsValue.thy ===== *)
theory JsValue
  imports Prelude
begin

text \<open>
  The JSON values a request body can carry after \<open>express.json()\<close> has parsed it, and
  the JavaScript operations the handler applies to them: truthiness and \<open>||\<close>,
  conversion to a string inside a template literal, and \<open>?.join(', ')\<close> with the
  \<open>TypeError\<close> it raises on a value that is not an array. A field that is absent from
  the body is \<open>undefined\<close>, written \<open>None\<close>. Conversion to a string is ECMAScript's
  \<open>ToString\<close>: an object with an own \<open>toString\<close> key (a string, not a function, after
  JSON parsing) throws \<open>TypeError\<close>, an array joins its elements, and a number goes
  through the double \<open>JSON.parse\<close> rounds it to (nearest, ties to even, \<open>Infinity\<close>
  from \<open>2^1024\<close>) and is printed with the shortest round-tripping digits, in exponent
  form from \<open>10^21\<close>. Only integral numbers are modelled: a fraction in the body is not.
\<close>

datatype jval =
    JNull
  | JBool bool
  | JNum int
  | JStr jstr
  | JArr "jval list"
  | JObj "(jstr \<times> jval) list"

text \<open>The errors the generation handler can meet: a method call on a value that has
  no such method, and a failure of the external text-generation service.\<close>

datatype js_error = TypeError | ServiceError

section \<open>Truthiness and the \<open>||\<close> operator\<close>

fun truthy :: "jval \<Rightarrow> bool" where
  "truthy JNull = False"
| "truthy (JBool b) = b"
| "truthy (JNum n) = (n \<noteq> 0)"
| "truthy (JStr s) = (s \<noteq> [])"
| "truthy (JArr xs) = True"
| "truthy (JObj ps) = True"

definition field_truthy :: "jval option \<Rightarrow> bool" where
  "field_truthy v = (case v of None \<Rightarrow> False | Some x \<Rightarrow> truthy x)"

text \<open>\<open>a || b\<close> between two possibly undefined values, and \<open>a || literal\<close>.\<close>

definition js_or :: "jval option \<Rightarrow> jval option \<Rightarrow> jval option" where
  "js_or a b = (if field_truthy a then a else b)"

definition js_or_lit :: "jval option \<Rightarrow> jval \<Rightarrow> jval" where
  "js_or_lit a d = (case a of Some x \<Rightarrow> if truthy x then x else d | None \<Rightarrow> d)"

section \<open>String conversion\<close>

fun nat_to_jstr :: "nat \<Rightarrow> jstr" where
  "nat_to_jstr n =
     (if n < 10 then [of_nat (48 + n)] else nat_to_jstr (n div 10) @ [of_nat (48 + n mod 10)])"

declare nat_to_jstr.simps [simp del]

definition int_to_jstr :: "int \<Rightarrow> jstr" where
  "int_to_jstr i = (if i < 0 then js ''-'' @ nat_to_jstr (nat (- i)) else nat_to_jstr (nat i))"

text \<open>
  Sequencing of steps that may throw: the first exception wins, as in JavaScript.\<close>

definition js_bind :: "js_error + 'a \<Rightarrow> ('a \<Rightarrow> js_error + 'b) \<Rightarrow> js_error + 'b" where
  "js_bind m f = (case m of Inl e \<Rightarrow> Inl e | Inr a \<Rightarrow> f a)"

subsection \<open>Numbers\<close>

text \<open>
  A JSON number literal of the request body is here its integer value; \<open>JSON.parse\<close>
  turns it into the nearest double (ties to even, magnitudes from \<open>2^1024\<close> on become
  \<open>Infinity\<close>), and \<open>Number::toString\<close> prints that double with the fewest digits
  \<open>s\<close> such that \<open>s \<times> 10^(n-k)\<close> still rounds to it (the closest such, ties to an
  even \<open>s\<close>), positionally below \<open>10^21\<close> and in exponent form from there.
\<close>

fun bit_len :: "nat \<Rightarrow> nat" where
  "bit_len n = (if n = 0 then 0 else Suc (bit_len (n div 2)))"

declare bit_len.simps [simp del]

definition round_to_double :: "nat \<Rightarrow> nat" where
  "round_to_double n =
     (let e = bit_len n - 53 in
      if e = 0 then n
      else
        (let q = n div 2 ^ e; r = n mod 2 ^ e; h = 2 ^ (e - 1)
         in (if h < r \<or> (r = h \<and> odd q) then q + 1 else q) * 2 ^ e))"

definition shortest_at :: "nat \<Rightarrow> nat \<Rightarrow> nat option" where
  "shortest_at v k =
     (let u = 10 ^ (length (nat_to_jstr v) - k); s0 = v div u; lo = s0 * u; hi = (s0 + 1) * u;
          okl = (round_to_double lo = v); okh = (round_to_double hi = v)
      in if okl \<and> okh
         then Some (if v - lo < hi - v then lo else if hi - v < v - lo then hi
                    else if even s0 then lo else hi)
         else if okl then Some lo else if okh then Some hi else None)"

definition shortest_decimal :: "nat \<Rightarrow> nat" where
  "shortest_decimal v =
     (if v < 2 ^ 53 then v
      else (case first_some (shortest_at v) [1..<18] of Some w \<Rightarrow> w | None \<Rightarrow> v))"

definition exp_form :: "nat \<Rightarrow> jstr" where
  "exp_form w =
     (let ds = nat_to_jstr w; sd = rev (dropWhile (\<lambda>c. c = 0x30) (rev ds))
      in [hd sd] @ (if tl sd = [] then [] else [0x2E] @ tl sd) @ js ''e+'' @
         nat_to_jstr (length ds - 1))"

definition num_str :: "int \<Rightarrow> jstr" where
  "num_str i =
     (let v = round_to_double (nat \<bar>i\<bar>); sg = (if i < 0 then js ''-'' else [])
      in if 2 ^ 1024 \<le> v then sg @ js ''Infinity''
         else if v = 0 then js ''0''
         else sg @ (let w = shortest_decimal v in if w < 10 ^ 21 then nat_to_jstr w else exp_form w))"

subsection \<open>Values\<close>

text \<open>
  \<open>ToString(v)\<close>, as a template literal \<open>${v}\<close> and \<open>Array.prototype.join\<close> apply
  it. An array converts as \<open>v.join(',')\<close>, where a \<open>null\<close> element becomes the empty
  string and a throwing element makes the join throw. An object goes through
  \<open>OrdinaryToPrimitive\<close>: it calls \<open>toString\<close>, then \<open>valueOf\<close>; an object of
  \<open>JSON.parse\<close> with its own \<open>toString\<close> key has no callable \<open>toString\<close>, and the
  inherited \<open>valueOf\<close> returns the object itself, so the conversion throws a
  \<open>TypeError\<close>; any other object converts to \<open>[object Object]\<close>.
\<close>

fun to_jstr :: "jval \<Rightarrow> js_error + jstr"
  and elems_to_jstr :: "jval list \<Rightarrow> js_error + jstr list" where
  "to_jstr JNull = Inr (js ''null'')"
| "to_jstr (JBool b) = Inr (if b then js ''true'' else js ''false'')"
| "to_jstr (JNum n) = Inr (num_str n)"
| "to_jstr (JStr s) = Inr s"
| "to_jstr (JArr xs) =
     (case elems_to_jstr xs of Inl e \<Rightarrow> Inl e | Inr ss \<Rightarrow> Inr (js_join (js '','') ss))"
| "to_jstr (JObj ps) =
     (if map_of ps (js ''toString'') = None then Inr (js ''[object Object]'') else Inl TypeError)"
| "elems_to_jstr [] = Inr []"
| "elems_to_jstr (v # vs) =
     (case (if v = JNull then Inr [] else to_jstr v) of
        Inl e \<Rightarrow> Inl e
      | Inr s \<Rightarrow> (case elems_to_jstr vs of Inl e \<Rightarrow> Inl e | Inr ss \<Rightarrow> Inr (s # ss)))"

definition arr_join :: "jstr \<Rightarrow> jval list \<Rightarrow> js_error + jstr" where
  "arr_join sep xs = js_bind (elems_to_jstr xs) (\<lambda>ss. Inr (js_join sep ss))"

text \<open>
  \<open>v?.join(sep)\<close>: \<open>undefined\<close> when \<open>v\<close> is \<open>null\<close> or \<open>undefined\<close>, the joined
  string for an array (or the exception of one of its elements), and a
  \<open>TypeError\<close> for any other value, which has no \<open>join\<close> method.
\<close>

definition opt_join :: "jval option \<Rightarrow> jstr \<Rightarrow> js_error + jval option" where
  "opt_join v sep =
     (case v of
        None \<Rightarrow> Inr None
      | Some JNull \<Rightarrow> Inr None
      | Some (JArr xs) \<Rightarrow> js_bind (arr_join sep xs) (\<lambda>s. Inr (Some (JStr s)))
      | Some _ \<Rightarrow> Inl TypeError)"

text \<open>
  Reading a property of the parsed request body, \<open>req.body.k\<close>: \<open>JSON.parse\<close> keeps
  the last of duplicate keys, and an array has none of the fields the handlers read.
\<close>

definition get_field :: "jval \<Rightarrow> jstr \<Rightarrow> jval option" where
  "get_field v k = (case v of JObj ps \<Rightarrow> map_of (rev ps) k | _ \<Rightarrow> None)"

section \<open>Lemmas\<close>

lemma js_bind_simps [simp]: "js_bind (Inl e) f = Inl e" "js_bind (Inr a) f = f a"
  by (simp_all add: js_bind_def)

lemma js_bind_Inr_iff: "js_bind m f = Inr b \<longleftrightarrow> (\<exists>a. m = Inr a \<and> f a = Inr b)"
  by (cases m) simp_all

lemma to_jstr_JArr: "to_jstr (JArr xs) = arr_join (js '','') xs"
  by (simp add: arr_join_def js_bind_def split: sum.split)

lemma to_jstr_error: "to_jstr v = Inl e \<Longrightarrow> e = TypeError"
  and elems_to_jstr_error: "elems_to_jstr vs = Inl e \<Longrightarrow> e = TypeError"
  by (induction v and vs arbitrary: e and e rule: to_jstr_elems_to_jstr.induct)
     (auto split: if_splits sum.splits)

lemma to_jstr_object_error: "map_of ps (js ''toString'') \<noteq> None \<Longrightarrow> to_jstr (JObj ps) = Inl TypeError"
  by simp

lemma js_or_lit_truthy [simp]: "truthy x \<Longrightarrow> js_or_lit (Some x) d = x"
  and js_or_lit_falsy [simp]: "\<not> field_truthy a \<Longrightarrow> js_or_lit a d = d"
  by (auto simp: js_or_lit_def field_truthy_def split: option.splits)

lemma js_or_lit_cases: "js_or_lit a d = d \<or> (\<exists>x. a = Some x \<and> truthy x \<and> js_or_lit a d = x)"
  by (auto simp: js_or_lit_def split: option.splits)

lemma field_truthy_simps [simp]:
  "field_truthy None = False" "field_truthy (Some x) = truthy x"
  by (simp_all add: field_truthy_def)

lemma opt_join_error: "opt_join v sep = Inl e \<Longrightarrow> e = TypeError"
  by (auto simp: opt_join_def arr_join_def js_bind_def dest: elems_to_jstr_error
      split: option.splits jval.splits sum.splits)

lemma opt_join_or_default:
  "opt_join v sep = Inr j \<Longrightarrow> \<exists>x. to_jstr (js_or_lit j (JStr d)) = Inr x"
  by (auto simp: opt_join_def js_or_lit_def js_bind_Inr_iff split: option.splits jval.splits)

lemma opt_join_non_array:
  "x \<noteq> JNull \<Longrightarrow> (\<forall>xs. x \<noteq> JArr xs) \<Longrightarrow> opt_join (Some x) sep = Inl TypeError"
  by (cases x) (simp_all add: opt_join_def)

lemma get_field_last [simp]: "get_field (JObj (ps @ [(k, v)])) k = Some v"
  by (simp add: get_field_def)

lemma get_field_other [simp]: "k' \<noteq> k \<Longrightarrow> get_field (JObj (ps @ [(k', v)])) k = get_field (JObj ps) k"
  by (simp add: get_field_def)

lemma nat_to_jstr_nonempty [simp]: "nat_to_jstr n \<noteq> []"
  by (subst nat_to_jstr.simps) simp

lemma parse_int_snoc [simp]: "parse_int (ds @ [c]) = 10 * parse_int ds + (unat c - 48)"
  by (simp add: parse_int_def)

lemma parse_int_zeros [simp]: "parse_int (replicate k 0x30 @ ds) = parse_int ds"
proof -
  have "foldl (\<lambda>n c. 10 * n + (unat c - 48)) 0 (replicate k (0x30::cu)) = 0"
    by (induction k) simp_all
  then show ?thesis by (simp add: parse_int_def)
qed

lemma digit_cu: "d < 10 \<Longrightarrow> unat (of_nat (48 + d) :: cu) = 48 + d"
  by (subst unat_of_nat) simp

lemma nat_to_jstr_digits: "list_all is_digit (nat_to_jstr n)"
proof (induction n rule: nat_to_jstr.induct)
  case (1 n)
  have d: "is_digit (of_nat (48 + d) :: cu)" if "d < 10" for d
    using that digit_cu [OF that] by (simp add: is_digit_def word_le_nat_alt)
  show ?case using 1 d [of n] d [of "n mod 10"] by (subst nat_to_jstr.simps) simp
qed

lemma parse_nat_to_jstr [simp]: "parse_int (nat_to_jstr n) = n"
proof (induction n rule: nat_to_jstr.induct)
  case (1 n)
  then show ?case
    using digit_cu [of n] digit_cu [of "n mod 10"]
    by (subst nat_to_jstr.simps) (simp add: parse_int_def del: of_nat_add)
qed

lemma length_nat_to_jstr_step:
  "length (nat_to_jstr n) = (if n < 10 then 1 else Suc (length (nat_to_jstr (n div 10))))"
  by (subst nat_to_jstr.simps) simp

lemma length_nat_to_jstr: "n < 10 ^ k \<Longrightarrow> 0 < k \<Longrightarrow> length (nat_to_jstr n) \<le> k"
proof (induction k arbitrary: n)
  case 0
  then show ?case by simp
next
  case (Suc k)
  show ?case
  proof (cases "n < 10")
    case True
    then show ?thesis by (simp add: length_nat_to_jstr_step)
  next
    case False
    with Suc.prems have k: "0 < k" by (cases k) auto
    have "n div 10 < 10 ^ k" using Suc.prems(1) by (simp add: div_less_iff_less_mult mult.commute)
    with Suc.IH [OF this k] False show ?thesis by (simp add: length_nat_to_jstr_step)
  qed
qed

lemma bit_len_le: "bit_len n \<le> k \<longleftrightarrow> n < 2 ^ k"
proof (induction n arbitrary: k rule: bit_len.induct)
  case (1 n)
  show ?case
  proof (cases "n = 0")
    case True
    then show ?thesis by (simp add: bit_len.simps [of 0])
  next
    case False
    then have b: "bit_len n = Suc (bit_len (n div 2))" by (simp add: bit_len.simps [of n])
    show ?thesis
    proof (cases k)
      case 0
      with False b show ?thesis by simp
    next
      case (Suc k')
      have "n div 2 < 2 ^ k' \<longleftrightarrow> n < 2 ^ Suc k'" by auto
      with "1.IH" [OF False, of k'] b Suc show ?thesis by simp
    qed
  qed
qed

text \<open>A safe integer (magnitude below \<open>2^53\<close>) is a double as it stands, and prints
  as its decimal digits.\<close>

lemma num_str_safe: "\<bar>i\<bar> < 2 ^ 53 \<Longrightarrow> num_str i = int_to_jstr i"
proof -
  assume a: "\<bar>i\<bar> < 2 ^ 53"
  then have v: "nat \<bar>i\<bar> < 2 ^ 53" by (simp add: nat_less_iff)
  then have r: "round_to_double (nat \<bar>i\<bar>) = nat \<bar>i\<bar>"
    using bit_len_le [of "nat \<bar>i\<bar>" 53] by (simp add: round_to_double_def)
  have sd: "shortest_decimal (nat \<bar>i\<bar>) = nat \<bar>i\<bar>" using v by (simp add: shortest_decimal_def)
  have b1: "\<not> (2::nat) ^ 1024 \<le> nat \<bar>i\<bar>" and b2: "nat \<bar>i\<bar> < 10 ^ 21"
    using v by (simp_all add: order_less_le_trans [of _ "2 ^ 53"])
  have z: "nat_to_jstr 0 = js ''0''" by (simp add: nat_to_jstr.simps [of 0])
  show ?thesis
    using r sd b1 b2 z by (auto simp: num_str_def int_to_jstr_def Let_def)
qed

end
