(* ===== verification/Request.thy ===== *)
theory Request
  imports JsValue
begin

text \<open>
  The request of \<open>POST /generate-itinerary\<close> (\<open>src/backend/server.js\<close>, lines 28--42):
  the five fields destructured from \<open>req.body\<close>, the final destination
  \<open>destination || prompt || 'Unknown Destination'\<close>, the validation that rejects a
  request with neither destination nor prompt, and the defaults \<open>duration || '3'\<close>,
  \<open>budget || '1000'\<close> and \<open>interests || []\<close> that the handler applies where it uses
  the fields.
\<close>

record gen_request =
  destination :: "jval option"
  duration :: "jval option"
  budget :: "jval option"
  interests :: "jval option"
  prompt :: "jval option"

definition final_destination :: "gen_request \<Rightarrow> jval" where
  "final_destination r =
     js_or_lit (js_or (destination r) (prompt r)) (JStr (js ''Unknown Destination''))"

text \<open>The guard \<open>!destination && !prompt\<close> of line 39.\<close>

definition request_rejected :: "gen_request \<Rightarrow> bool" where
  "request_rejected r \<longleftrightarrow> \<not> field_truthy (destination r) \<and> \<not> field_truthy (prompt r)"

definition duration_or_default :: "gen_request \<Rightarrow> jval" where
  "duration_or_default r = js_or_lit (duration r) (JStr (js ''3''))"

definition budget_or_default :: "gen_request \<Rightarrow> jval" where
  "budget_or_default r = js_or_lit (budget r) (JStr (js ''1000''))"

definition interests_or_empty :: "gen_request \<Rightarrow> jval" where
  "interests_or_empty r = js_or_lit (interests r) (JArr [])"

text \<open>The request with no field set: an empty JSON body \<open>{}\<close>.\<close>

definition empty_request :: gen_request where
  "empty_request = \<lparr>destination = None, duration = None, budget = None, interests = None,
     prompt = None\<rparr>"

text \<open>Line 28, \<open>const { destination, duration, budget, interests, prompt } = req.body\<close>.\<close>

definition request_of_body :: "jval \<Rightarrow> gen_request" where
  "request_of_body b = \<lparr>destination = get_field b (js ''destination''),
     duration = get_field b (js ''duration''), budget = get_field b (js ''budget''),
     interests = get_field b (js ''interests''), prompt = get_field b (js ''prompt'')\<rparr>"

section \<open>Lemmas\<close>

lemma final_destination_accepted:
  "\<not> request_rejected r \<Longrightarrow>
   Some (final_destination r) = (if field_truthy (destination r) then destination r else prompt r)"
  by (auto simp: final_destination_def request_rejected_def js_or_def js_or_lit_def
      field_truthy_def split: option.splits)

lemma final_destination_truthy:
  "\<not> request_rejected r \<Longrightarrow> truthy (final_destination r)"
  using final_destination_accepted [of r]
  by (auto simp: request_rejected_def field_truthy_def split: if_splits option.splits)

section \<open>Properties\<close>

text \<open>
  C10. The fallback value \<open>'Unknown Destination'\<close> is never used: every request that
  passes validation has a truthy destination or prompt, and the final destination is
  the first of them that is truthy.
\<close>

theorem final_destination_never_unknown:
  "\<not> request_rejected r \<Longrightarrow>
   truthy (final_destination r) \<and>
   Some (final_destination r) = (if field_truthy (destination r) then destination r else prompt r)"
  by (simp add: final_destination_accepted final_destination_truthy)

theorem final_destination_never_unknown_witness:
  "\<not> request_rejected (empty_request\<lparr>destination := Some (JStr (js ''Rome''))\<rparr>) \<and>
   truthy (final_destination (empty_request\<lparr>destination := Some (JStr (js ''Rome''))\<rparr>))"
proof -
  have h: "\<not> request_rejected (empty_request\<lparr>destination := Some (JStr (js ''Rome''))\<rparr>)"
    by (simp add: request_rejected_def empty_request_def)
  from final_destination_never_unknown [OF h] h show ?thesis by simp
qed

end
