(* ===== verification/Itinerary.thy ===== *)
theory Itinerary
  imports JsValue
begin

text \<open>
  The objects the generation handler writes to the response stream
  (\<open>src/backend/server.js\<close>): a day plan (\<open>{day, title, activities}\<close>), the
  usage metrics, the itinerary summary, and the three kinds of frame that
  \<open>sendToken\<close>, \<open>sendItinerary\<close> and \<open>sendMetrics\<close> write, one JSON object per line.
  Object fields that the code never sets are \<open>None\<close> (absent from the JSON).
\<close>

record day_plan =
  day :: nat
  title :: jstr
  activities :: "jstr list"

record usage_metrics =
  prompt_tokens :: nat
  completion_tokens :: nat
  total_tokens :: nat

record itinerary =
  it_id :: nat
  it_destination :: jval
  it_duration :: jval
  it_budget :: jval
  it_description :: jstr
  it_full_text :: "jstr option"
  it_days :: "day_plan list"
  it_interests :: "jval option"

datatype frame =
    FToken jstr
  | FItinerary itinerary
  | FMetrics usage_metrics

text \<open>
  What the handler does to the HTTP response, in order: a header set, a status set, a
  frame written with \<open>res.write\<close>, a JSON body sent with \<open>res.json\<close> (which ends the
  response), and \<open>res.end()\<close>. The response is the log of these events.
\<close>

datatype out_event =
    OHeader string string
  | OStatus nat
  | OWrite frame
  | OJson "(jstr \<times> jval) list"
  | OEnd

type_synonym out_log = "out_event list"

fun is_token :: "out_event \<Rightarrow> bool" where
  "is_token (OWrite (FToken t)) = True"
| "is_token _ = False"

definition tokens_of :: "jstr list \<Rightarrow> out_log" where
  "tokens_of ts = map (\<lambda>t. OWrite (FToken t)) ts"

lemma tokens_of_simps [simp]:
  "tokens_of [] = []"
  "tokens_of (t # ts) = OWrite (FToken t) # tokens_of ts"
  "tokens_of (ts @ us) = tokens_of ts @ tokens_of us"
  by (simp_all add: tokens_of_def)

lemma tokens_of_all_tokens [simp]: "list_all is_token (tokens_of ts)"
  by (induction ts) simp_all

end
