(* ===== verification/Fallback.thy ===== *)
theory Fallback
  imports Request Itinerary
begin

text \<open>
  The fallback generator \<open>generateDemoItinerary\<close> (\<open>src/backend/server.js\<close>,
  lines 130--215): a fixed sequence of 32 text fragments built from the request's
  fields, each sent as a token frame (the 200 ms pause between them only paces the
  stream and is not modelled), then an itinerary summary with a hard-coded three-day
  plan and fixed usage metrics, then the end of the response. Building the fragment
  array converts the request's fields in template literals and evaluates
  \<open>interests?.join(', ')\<close>; each may throw a \<open>TypeError\<close> (an object with its own
  \<open>toString\<close> key, an \<open>interests\<close> value that is neither an array nor
  \<open>null\<close>/\<open>undefined\<close>), and the throw happens before anything is written. The emoji of the source file are kept as
  the UTF-16 code units the file actually contains.
\<close>

section \<open>The fragments\<close>

definition demo_fragments :: "jstr \<Rightarrow> jstr \<Rightarrow> jstr \<Rightarrow> jstr \<Rightarrow> jstr list" where
  "demo_fragments dest dur bud hl =
      [[0x11F, 0x178, 0xEF, 0xB8] @ js '' **Welcome to your '' @ dest @ js '' adventure!**'' @ [cu_nl, cu_nl],
       [0x11F, 0x178, 0x201C, 0x2026] @ js '' **'' @ dur @ js ''-Day Itinerary for '' @ dest @ js ''**'' @ [cu_nl, cu_nl],
       [0x11F, 0x178, 0x2019, 0xB0] @ js '' **Budget**: $'' @ bud @ js '' per person'' @ [cu_nl, cu_nl],
       js ''**Day 1: Arrival & City Exploration**'' @ [cu_nl],
       [0x11F, 0x178, 0x152, 0x2026] @ js '' Morning: Arrive and check into your hotel'' @ [cu_nl],
       [0x11F, 0x178, 0x203A, 0xEF, 0xB8] @ js '' Afternoon: Visit main landmarks and historic sites'' @ [cu_nl],
       [0x11F, 0x178, 0xBD, 0xEF, 0xB8] @ js '' Evening: Try local cuisine at recommended restaurants'' @ [cu_nl],
       [0x11F, 0x178, 0x201C] @ js '' Must-visit: City center, local markets'' @ [cu_nl, cu_nl],
       js ''**Day 2: Cultural & Adventure Activities**'' @ [cu_nl],
       [0x11F, 0x178, 0xA8] @ js '' Morning: Museums and cultural attractions'' @ [cu_nl],
       [0x11F, 0x178, 0xEF, 0xB8] @ js '' Afternoon: Outdoor activities and nature spots'' @ [cu_nl],
       [0x11F, 0x178, 0xAD] @ js '' Evening: Local entertainment and nightlife'' @ [cu_nl],
       [0x11F, 0x178, 0x201C] @ js '' Highlights: '' @ hl @ [cu_nl, cu_nl],
       js ''**Day 3: Local Experiences & Departure**'' @ [cu_nl],
       [0x11F, 0x178, 0x203A, 0xEF, 0xB8] @ js '' Morning: Shopping for local souvenirs'' @ [cu_nl],
       [0xE2, 0x2DC, 0x2022] @ js '' Afternoon: Relax at local cafes and final sightseeing'' @ [cu_nl],
       [0xE2, 0x153, 0x2C6, 0xEF, 0xB8] @ js '' Evening: Departure preparations'' @ [cu_nl, cu_nl],
       js ''**'' @ [0x11F, 0x178, 0x201C] @ js '' Key Locations:**'' @ [cu_nl],
       [0xE2, 0x20AC, 0xA2] @ js '' Central Plaza, '' @ dest @ [cu_nl],
       [0xE2, 0x20AC, 0xA2] @ js '' Historic District, '' @ dest @ [cu_nl],
       [0xE2, 0x20AC, 0xA2] @ js '' Local Market Square, '' @ dest @ [cu_nl],
       [0xE2, 0x20AC, 0xA2] @ js '' Scenic Viewpoint, '' @ dest @ [cu_nl, cu_nl],
       js ''**'' @ [0x11F, 0x178, 0x2019, 0xA1] @ js '' Pro Tips:**'' @ [cu_nl],
       [0xE2, 0x20AC, 0xA2] @ js '' Book accommodations in advance'' @ [cu_nl],
       [0xE2, 0x20AC, 0xA2] @ js '' Try local transportation options'' @ [cu_nl],
       [0xE2, 0x20AC, 0xA2] @ js '' Don't forget travel insurance'' @ [cu_nl],
       [0xE2, 0x20AC, 0xA2] @ js '' Learn basic local phrases'' @ [cu_nl, cu_nl],
       js ''**'' @ [0x11F, 0x178, 0x201C, 0xB1] @ js '' Useful Apps:**'' @ [cu_nl],
       [0xE2, 0x20AC, 0xA2] @ js '' Google Maps for navigation'' @ [cu_nl],
       [0xE2, 0x20AC, 0xA2] @ js '' Google Translate for communication'' @ [cu_nl],
       [0xE2, 0x20AC, 0xA2] @ js '' Local weather app'' @ [cu_nl, cu_nl],
       js ''Have an amazing trip to '' @ dest @ js ''! '' @ [0x11F, 0x178, 0x2030]]"

text \<open>The template literals of the fragment array, in the order the array literal
  evaluates them: \<open>${finalDestination}\<close>, \<open>${duration || '3'}\<close>,
  \<open>${budget || '1000'}\<close>, \<open>${interests?.join(', ') || ...}\<close>. Any of them may
  throw; nothing has been written when it does.\<close>

definition demo_parts :: "gen_request \<Rightarrow> js_error + jstr list" where
  "demo_parts r =
     js_bind (to_jstr (final_destination r)) (\<lambda>d.
     js_bind (to_jstr (duration_or_default r)) (\<lambda>du.
     js_bind (to_jstr (budget_or_default r)) (\<lambda>bu.
     js_bind (opt_join (interests r) (js '', '')) (\<lambda>j.
     js_bind (to_jstr (js_or_lit j (JStr (js ''Cultural sites, outdoor activities'')))) (\<lambda>h.
     Inr (demo_fragments d du bu h))))))"

section \<open>The structured result\<close>

definition demo_days :: "day_plan list" where
  "demo_days =
     [\<lparr>day = 1, title = js ''Arrival & City Exploration'',
       activities = [js ''Check into hotel'', js ''Visit landmarks'', js ''Try local cuisine'']\<rparr>,
      \<lparr>day = 2, title = js ''Cultural & Adventure Activities'',
       activities = [js ''Museums'', js ''Outdoor activities'', js ''Local entertainment'']\<rparr>,
      \<lparr>day = 3, title = js ''Local Experiences & Departure'',
       activities = [js ''Shopping'', js ''Cafes'', js ''Departure preparations'']\<rparr>]"

text \<open>The object of lines 179--200; its \<open>description\<close> converts
  \<open>finalDestination\<close> once more.\<close>

definition demo_itinerary :: "gen_request \<Rightarrow> nat \<Rightarrow> js_error + itinerary" where
  "demo_itinerary r now =
     js_bind (to_jstr (final_destination r)) (\<lambda>d.
       Inr \<lparr>it_id = now, it_destination = final_destination r, it_duration = duration_or_default r,
            it_budget = budget_or_default r, it_description = js ''A wonderful trip to '' @ d,
            it_full_text = None, it_days = demo_days, it_interests = None\<rparr>)"

definition demo_metrics :: usage_metrics where
  "demo_metrics = \<lparr>prompt_tokens = 50, completion_tokens = 300, total_tokens = 350\<rparr>"

section \<open>Sending\<close>

text \<open>The \<open>for\<close> loop of lines 173--176: one \<open>sendToken\<close> per fragment.\<close>

primrec send_tokens :: "jstr list \<Rightarrow> out_log \<Rightarrow> out_log" where
  "send_tokens [] log = log"
| "send_tokens (p # ps) log = send_tokens ps (log @ [OWrite (FToken p)])"

text \<open>The whole function: \<open>Inl\<close> is the exception it throws, with the log as it
  stands at the throw.\<close>

definition generate_demo :: "gen_request \<Rightarrow> nat \<Rightarrow> out_log \<Rightarrow> (js_error + unit) \<times> out_log" where
  "generate_demo r now log =
     (case demo_parts r of
        Inl e \<Rightarrow> (Inl e, log)
      | Inr parts \<Rightarrow>
          (let log1 = send_tokens parts log
           in (case demo_itinerary r now of
                 Inl e \<Rightarrow> (Inl e, log1)
               | Inr it \<Rightarrow>
                   (let log2 = log1 @ [OWrite (FItinerary it)];
                        log3 = log2 @ [OWrite (FMetrics demo_metrics)]
                    in (Inr (), log3 @ [OEnd])))))"

section \<open>Properties\<close>

text \<open>
  C12. Whenever the fallback produces its fragments, there are 32 of them, and the
  welcome banner, the title, the four key-location lines and the sign-off each name
  the final destination.
\<close>

theorem fallback_names_destination:
  "demo_parts r = Inr ps \<Longrightarrow>
   \<exists>d. to_jstr (final_destination r) = Inr d \<and> length ps = 32 \<and>
     list_all (sublist d) ([ps ! 0, ps ! 1] @ take 4 (drop 18 ps) @ [ps ! 31])"
  by (auto simp: demo_parts_def js_bind_Inr_iff demo_fragments_def sublist_append_right
      sublist_Cons_rightI)

theorem fallback_names_destination_witness:
  "demo_parts (empty_request\<lparr>destination := Some (JStr (js ''Oslo''))\<rparr>) =
     Inr (demo_fragments (js ''Oslo'') (js ''3'') (js ''1000'')
            (js ''Cultural sites, outdoor activities'')) \<and>
   length (demo_fragments (js ''Oslo'') (js ''3'') (js ''1000'')
            (js ''Cultural sites, outdoor activities'')) = 32"
proof -
  have h: "demo_parts (empty_request\<lparr>destination := Some (JStr (js ''Oslo''))\<rparr>) =
     Inr (demo_fragments (js ''Oslo'') (js ''3'') (js ''1000'')
            (js ''Cultural sites, outdoor activities''))"
    by (simp add: demo_parts_def opt_join_def final_destination_def js_or_def js_or_lit_def
        duration_or_default_def budget_or_default_def empty_request_def del: js_Cons)
  from fallback_names_destination [OF h] h show ?thesis by auto
qed

end
