(* ===== verification/HeaderRegex.thy ===== *)
theory HeaderRegex
  imports Itinerary
begin

text \<open>
  The day-header regular expression of \<open>extractDaysFromText\<close>
  (\<open>src/backend/server.js\<close>, line 226):
  \<^verbatim>\<open>/\*\*Day (\d+)[:\s]*([^\n]*)\*\*/gi\<close>
  and \<open>RegExp.prototype.exec\<close> on it with the \<open>g\<close> flag, which searches from
  \<open>lastIndex\<close> and moves \<open>lastIndex\<close> to the end of the match (to 0 when there is
  none). The matcher is written as the backtracking search the ECMAScript engine
  performs: each greedy quantifier tries its longest count first and backs off one
  unit at a time. The \<open>i\<close> flag makes the letters of \<open>Day\<close> match in either case
  (non-Unicode case folding only relates ASCII letters here); it does not affect the
  other atoms.
\<close>

section \<open>Character classes\<close>

definition colon_or_ws :: "cu \<Rightarrow> bool" where
  "colon_or_ws c \<longleftrightarrow> c = 0x3A \<or> js_ws c"

definition ci_letter :: "cu \<Rightarrow> cu \<Rightarrow> bool" where
  "ci_letter up c \<longleftrightarrow> c = up \<or> c = up + 0x20"

text \<open>The fixed prefix \<open>**Day \<close> of the pattern, case-insensitive in its letters.\<close>

fun header_prefix :: "jstr \<Rightarrow> bool" where
  "header_prefix (a # b # d # e # y # sp # _) \<longleftrightarrow>
     a = cu_star \<and> b = cu_star \<and> ci_letter 0x44 d \<and> ci_letter 0x41 e \<and> ci_letter 0x59 y
     \<and> sp = 0x20"
| "header_prefix _ \<longleftrightarrow> False"

section \<open>The matcher\<close>

text \<open>A successful match: capture 1 (the digits), capture 2 (the raw title), and the
  length of the whole match \<open>match[0]\<close>.\<close>

record hmatch =
  hm_digits :: jstr
  hm_title :: jstr
  hm_len :: nat

definition close_at :: "jstr \<Rightarrow> nat \<Rightarrow> bool" where
  "close_at r k \<longleftrightarrow> take 2 (drop k r) = [cu_star, cu_star]"

text \<open>
  The match attempt at the start of \<open>xs\<close>, one definition per quantifier. After the
  prefix, \<open>(\d+)\<close> takes \<open>i\<close> digits (from the most down to one); then
  \<open>[:\s]*\<close> takes \<open>j\<close> units (\<open>try_sep\<close>); then \<open>([^\n]*)\<close> takes
  \<open>k\<close> units and the closing \<open>\*\*\<close> must follow (\<open>try_title\<close>).
\<close>

definition try_title :: "jstr \<Rightarrow> nat \<Rightarrow> nat \<Rightarrow> jstr \<Rightarrow> hmatch option" where
  "try_title digits i j r3 =
     first_some (\<lambda>k.
         if close_at r3 k
         then Some \<lparr>hm_digits = digits, hm_title = take k r3, hm_len = 6 + i + j + k + 2\<rparr>
         else None)
       (rev [0..<Suc (length (takeWhile (\<lambda>c. c \<noteq> cu_nl) r3))])"

definition try_sep :: "jstr \<Rightarrow> nat \<Rightarrow> jstr \<Rightarrow> hmatch option" where
  "try_sep digits i r2 =
     first_some (\<lambda>j. try_title digits i j (drop j r2))
       (rev [0..<Suc (length (takeWhile colon_or_ws r2))])"

definition match_header :: "jstr \<Rightarrow> hmatch option" where
  "match_header xs =
     (if \<not> header_prefix xs then None
      else
        (let r = drop 6 xs in
         first_some (\<lambda>i. try_sep (take i r) i (drop i r))
           (rev [1..<Suc (length (takeWhile is_digit r))])))"

text \<open>
  The search of \<open>exec\<close>: attempts at \<open>lastIndex\<close>, \<open>lastIndex + 1\<close>, \<dots>, up to
  the length of the string; \<open>None\<close> when \<open>lastIndex\<close> is past the end.
\<close>

function find_header :: "jstr \<Rightarrow> nat \<Rightarrow> (nat \<times> hmatch) option" where
  "find_header s i =
     (if length s < i then None
      else (case match_header (drop i s) of
              Some m \<Rightarrow> Some (i, m)
            | None \<Rightarrow> find_header s (Suc i)))"
  by pat_completeness auto
termination
  by (relation "measure (\<lambda>(s, i). Suc (length s) - i)") auto

declare find_header.simps [simp del]

text \<open>\<open>dayRegex.exec(text)\<close>: the match (its index and captures) and the new
  \<open>lastIndex\<close>.\<close>

definition regex_exec :: "jstr \<Rightarrow> nat \<Rightarrow> (nat \<times> hmatch) option \<times> nat" where
  "regex_exec s li =
     (case find_header s li of
        None \<Rightarrow> (None, 0)
      | Some (idx, m) \<Rightarrow> (Some (idx, m), idx + hm_len m))"

section \<open>Properties of a match\<close>

lemma close_at_bound: "close_at r k \<Longrightarrow> k + 2 \<le> length r"
proof -
  assume "close_at r k"
  then have "length (take 2 (drop k r)) = 2" by (simp add: close_at_def)
  then show ?thesis by simp
qed

lemma take_takeWhile: "i \<le> length (takeWhile P xs) \<Longrightarrow> take i xs = take i (takeWhile P xs)"
proof -
  assume i: "i \<le> length (takeWhile P xs)"
  have "take i xs = take i (takeWhile P xs @ dropWhile P xs)" by simp
  also have "\<dots> = take i (takeWhile P xs)" using i by (simp only: take_append) simp
  finally show ?thesis .
qed

lemma try_title_Some:
  "try_title d i j r3 = Some m \<Longrightarrow>
     \<exists>k. close_at r3 k \<and> m = \<lparr>hm_digits = d, hm_title = take k r3, hm_len = 6 + i + j + k + 2\<rparr>"
proof -
  assume "try_title d i j r3 = Some m"
  then obtain k where "(if close_at r3 k
         then Some \<lparr>hm_digits = d, hm_title = take k r3, hm_len = 6 + i + j + k + 2\<rparr>
         else None) = Some m"
    unfolding try_title_def by (blast dest: first_some_Some)
  then show ?thesis by (auto split: if_splits)
qed

lemma try_sep_Some:
  "try_sep d i r2 = Some m \<Longrightarrow>
     \<exists>j k. close_at (drop j r2) k \<and>
       m = \<lparr>hm_digits = d, hm_title = take k (drop j r2), hm_len = 6 + i + j + k + 2\<rparr>"
proof -
  assume "try_sep d i r2 = Some m"
  then obtain j where "try_title d i j (drop j r2) = Some m"
    unfolding try_sep_def by (blast dest: first_some_Some)
  then show ?thesis by (blast dest: try_title_Some)
qed

lemma match_header_Some:
  assumes "match_header xs = Some m"
  shows "header_prefix xs"
    and "\<exists>i j k. 1 \<le> i \<and> hm_len m = 6 + i + j + k + 2 \<and>
           hm_digits m = take i (drop 6 xs) \<and>
           list_all is_digit (hm_digits m) \<and>
           hm_title m = take k (drop (6 + i + j) xs) \<and>
           close_at (drop (6 + i + j) xs) k"
proof -
  show hp: "header_prefix xs"
    using assms by (auto simp: match_header_def split: if_splits)
  let ?r = "drop 6 xs"
  from assms hp have "first_some (\<lambda>i. try_sep (take i ?r) i (drop i ?r))
           (rev [1..<Suc (length (takeWhile is_digit ?r))]) = Some m"
    unfolding match_header_def Let_def by (simp only: not_True_eq_False if_False)
  then obtain i where i: "i \<in> set (rev [1..<Suc (length (takeWhile is_digit ?r))])"
    and m1: "try_sep (take i ?r) i (drop i ?r) = Some m"
    by (blast dest: first_some_Some)
  from try_sep_Some [OF m1] obtain j k where
    c: "close_at (drop j (drop i ?r)) k"
    and m: "m = \<lparr>hm_digits = take i ?r, hm_title = take k (drop j (drop i ?r)),
                 hm_len = 6 + i + j + k + 2\<rparr>"
    by blast
  from i have i1: "1 \<le> i" and i2: "i \<le> length (takeWhile is_digit ?r)" by auto
  from i2 have "take i ?r = take i (takeWhile is_digit ?r)" by (rule take_takeWhile)
  then have "list_all is_digit (take i ?r)"
    by (auto simp: list_all_iff dest: in_set_takeD set_takeWhileD)
  with i1 m c show "\<exists>i j k. 1 \<le> i \<and> hm_len m = 6 + i + j + k + 2 \<and>
           hm_digits m = take i (drop 6 xs) \<and>
           list_all is_digit (hm_digits m) \<and>
           hm_title m = take k (drop (6 + i + j) xs) \<and>
           close_at (drop (6 + i + j) xs) k"
    by (auto simp: add.assoc add.commute)
qed

lemma match_header_len:
  assumes "match_header xs = Some m"
  shows "9 \<le> hm_len m" and "hm_len m \<le> length xs"
proof -
  from match_header_Some(2) [OF assms] obtain i j k where
    i: "1 \<le> i" and len: "hm_len m = 6 + i + j + k + 2"
    and c: "close_at (drop (6 + i + j) xs) k"
    by blast
  from c have "k + 2 \<le> length xs - (6 + i + j)" by (auto dest: close_at_bound)
  with i len show "9 \<le> hm_len m" and "hm_len m \<le> length xs" by arith+
qed

section \<open>The search\<close>

lemma find_header_Some:
  "find_header s i = Some (j, m) \<Longrightarrow>
     i \<le> j \<and> j + hm_len m \<le> length s \<and> match_header (drop j s) = Some m \<and>
     (\<forall>k. i \<le> k \<and> k < j \<longrightarrow> match_header (drop k s) = None)"
proof (induction s i rule: find_header.induct)
  case (1 s i)
  show ?case
  proof (cases "match_header (drop i s)")
    case None
    with "1.prems" have "length s \<ge> i" and rec: "find_header s (Suc i) = Some (j, m)"
      by (auto simp: find_header.simps [of s i] split: if_splits)
    from "1.IH" [OF _ None] \<open>length s \<ge> i\<close> rec have IH:
      "Suc i \<le> j \<and> j + hm_len m \<le> length s \<and> match_header (drop j s) = Some m \<and>
       (\<forall>k. Suc i \<le> k \<and> k < j \<longrightarrow> match_header (drop k s) = None)"
      by simp
    have "\<forall>k. i \<le> k \<and> k < j \<longrightarrow> match_header (drop k s) = None"
    proof (intro allI impI)
      fix k assume "i \<le> k \<and> k < j"
      with IH None show "match_header (drop k s) = None" by (cases "k = i") auto
    qed
    with IH show ?thesis by simp
  next
    case (Some m')
    with "1.prems" have "j = i" and "m' = m" and "i \<le> length s"
      by (auto simp: find_header.simps [of s i] split: if_splits)
    with Some show ?thesis
      using match_header_len(2) [OF Some] by auto
  qed
qed

lemma find_header_None:
  "find_header s i = None \<Longrightarrow> i \<le> k \<Longrightarrow> match_header (drop k s) = None"
proof (induction s i rule: find_header.induct)
  case (1 s i)
  show ?case
  proof (cases "length s < i")
    case True
    with "1.prems" have "length s < k" by simp
    then show ?thesis by (simp add: match_header_def)
  next
    case False
    with "1.prems"(1) have none: "match_header (drop i s) = None"
      and rec: "find_header s (Suc i) = None"
      by (auto simp: find_header.simps [of s i] split: option.splits)
    show ?thesis
    proof (cases "k = i")
      case True
      with none show ?thesis by simp
    next
      case False
      with "1.prems"(2) have "Suc i \<le> k" by simp
      from "1.IH" \<open>\<not> length s < i\<close> none rec \<open>Suc i \<le> k\<close> show ?thesis
        by blast
    qed
  qed
qed

lemma regex_exec_Some:
  "regex_exec s li = (Some (idx, m), li') \<Longrightarrow>
     li \<le> idx \<and> li' = idx + hm_len m \<and> li < li' \<and> li' \<le> length s \<and>
     find_header s li = Some (idx, m)"
  using find_header_Some [of s li idx m] match_header_len(1) [of "drop idx s" m]
  by (auto simp: regex_exec_def split: option.splits)

lemma regex_exec_None: "fst (regex_exec s li) = None \<longleftrightarrow> find_header s li = None"
  by (auto simp: regex_exec_def split: option.splits)

end
