(* ===== verification/DayParser.thy ===== *)
theory DayParser
  imports HeaderRegex
begin

text \<open>
  \<open>extractDaysFromText\<close> (\<open>src/backend/server.js\<close>, lines 224--258): the loop that
  runs the global header regex over the AI text, cuts the text into one segment per
  header, picks the activity lines of each segment, and falls back to a fixed
  three-day skeleton when no header is found. The loop calls \<open>exec\<close> twice per
  iteration (once for the current header, once to find where its segment ends) and
  then resets \<open>lastIndex\<close> to the end of the current match; \<open>extract_loop\<close> keeps
  that shape. \<open>all_headers\<close> and \<open>segment_plans\<close> are the single-pass
  reading (one forward scan collecting every header, segments cut between adjacent
  headers) that the loop is proved to compute.
\<close>

section \<open>Activity lines\<close>

text \<open>The character class of the two activity regexes (lines 242--243), code unit by
  code unit as it stands in the source file, duplicates included.\<close>

definition marker_class :: "cu list" where
  "marker_class = [0x11F, 0x178, 0x152, 0x2026, 0x11F, 0x178, 0x203A, 0xEF, 0xB8, 0x11F,
     0x178, 0xBD, 0xEF, 0xB8, 0x11F, 0x178, 0xA8, 0x11F, 0x178, 0xEF, 0xB8, 0x11F, 0x178,
     0xAD, 0x11F, 0x178, 0x203A, 0xEF, 0xB8, 0xE2, 0x2DC, 0x2022, 0xE2, 0x153, 0x2C6,
     0xEF, 0xB8, 0x11F, 0x178, 0x201C, 0xE2, 0x20AC, 0xA2, 0x2D]"

definition is_marker :: "cu \<Rightarrow> bool" where
  "is_marker c \<longleftrightarrow> c \<in> set marker_class"

text \<open>\<open>s.match(/^[...]/)\<close> is truthy.\<close>

definition starts_with_marker :: "jstr \<Rightarrow> bool" where
  "starts_with_marker s = (case s of [] \<Rightarrow> False | c # _ \<Rightarrow> is_marker c)"

text \<open>\<open>line.replace(/^[...]\s*/, '')\<close>, applied to the untrimmed line.\<close>

definition strip_marker :: "jstr \<Rightarrow> jstr" where
  "strip_marker s = (case s of [] \<Rightarrow> [] | c # r \<Rightarrow> if is_marker c then dropWhile js_ws r else s)"

text \<open>Lines 240--244: split on newlines, keep the lines whose trimmed form starts with a
  marker, strip the marker, trim, and drop the empty results.\<close>

definition day_activities :: "jstr \<Rightarrow> jstr list" where
  "day_activities content =
     filter (\<lambda>a. 0 < length a)
       (map (\<lambda>l. js_trim (strip_marker l))
         (filter (\<lambda>l. starts_with_marker (js_trim l)) (split_on cu_nl content)))"

section \<open>The loop\<close>

text \<open>
  One iteration of the \<open>while\<close> loop (lines 229--251), with \<open>lastIndex\<close> as the
  state of the regex object: the first \<open>exec\<close> finds the header, the second the next
  header (only its index is used), \<open>lastIndex\<close> is reset to
  \<open>dayStart + match[0].length\<close>, and the day record is pushed.
\<close>

function extract_loop :: "jstr \<Rightarrow> nat \<Rightarrow> day_plan list \<Rightarrow> day_plan list" where
  "extract_loop text li days =
     (case regex_exec text li of
        (None, _) \<Rightarrow> days
      | (Some (dayStart, m), li1) \<Rightarrow>
          (let dayNumber = parse_int (hm_digits m);
               ttl = js_trim (hm_title m);
               dayEnd = (case fst (regex_exec text li1) of
                           Some (j, _) \<Rightarrow> j
                         | None \<Rightarrow> length text);
               li2 = dayStart + hm_len m;
               dayContent = js_substring text dayStart dayEnd;
               acts = day_activities dayContent
           in extract_loop text li2
                (days @ [\<lparr>day = dayNumber, title = ttl, activities = take 5 acts\<rparr>])))"
  by pat_completeness auto
termination
  by (relation "measure (\<lambda>(text, li, days). Suc (length text) - li)")
    (auto dest!: regex_exec_Some [OF sym])

declare extract_loop.simps [simp del]

text \<open>The fixed skeleton returned when no header is found (lines 253--257).\<close>

definition default_days :: "day_plan list" where
  "default_days =
     [\<lparr>day = 1, title = js ''Arrival & Exploration'',
       activities = [js ''Check-in'', js ''City tour'', js ''Local dining'']\<rparr>,
      \<lparr>day = 2, title = js ''Adventure & Culture'',
       activities = [js ''Museums'', js ''Activities'', js ''Entertainment'']\<rparr>,
      \<lparr>day = 3, title = js ''Relaxation & Departure'',
       activities = [js ''Shopping'', js ''Cafes'', js ''Check-out'']\<rparr>]"

definition extract_days_from_text :: "jstr \<Rightarrow> day_plan list" where
  "extract_days_from_text text =
     (let days = extract_loop text 0 [] in if 0 < length days then days else default_days)"

section \<open>The single-pass reading\<close>

text \<open>Every header, in text order: each search starts where the previous match ended.\<close>

function all_headers :: "jstr \<Rightarrow> nat \<Rightarrow> (nat \<times> hmatch) list" where
  "all_headers s li =
     (case find_header s li of
        None \<Rightarrow> []
      | Some (idx, m) \<Rightarrow> (idx, m) # all_headers s (idx + hm_len m))"
  by pat_completeness auto
termination
  by (relation "measure (\<lambda>(s, li). Suc (length s) - li)")
    (auto dest!: find_header_Some match_header_len(1))

declare all_headers.simps [simp del]

text \<open>The day plan of each header, its segment running from its own start to the
  start of the next header, or to the end of the text.\<close>

fun segment_plans :: "jstr \<Rightarrow> (nat \<times> hmatch) list \<Rightarrow> day_plan list" where
  "segment_plans text [] = []"
| "segment_plans text ((idx, m) # rest) =
     \<lparr>day = parse_int (hm_digits m), title = js_trim (hm_title m),
      activities = take 5 (day_activities
        (js_substring text idx (case rest of [] \<Rightarrow> length text | (j, _) # _ \<Rightarrow> j)))\<rparr>
     # segment_plans text rest"

section \<open>Evaluation lemmas\<close>

lemma extract_loop_None:
  "fst (regex_exec tx li) = None \<Longrightarrow> extract_loop tx li days = days"
  by (subst extract_loop.simps) (auto split: prod.splits option.splits)

lemma extract_loop_Some:
  "regex_exec tx li = (Some (idx, m), li1) \<Longrightarrow>
   extract_loop tx li days =
     extract_loop tx (idx + hm_len m)
       (days @ [\<lparr>day = parse_int (hm_digits m), title = js_trim (hm_title m),
                 activities = take 5 (day_activities (js_substring tx idx
                   (case fst (regex_exec tx li1) of Some (j, _) \<Rightarrow> j | None \<Rightarrow> length tx)))\<rparr>])"
  by (subst extract_loop.simps) (simp add: Let_def)

lemma all_headers_None: "find_header s li = None \<Longrightarrow> all_headers s li = []"
  by (simp add: all_headers.simps [of s li])

lemma all_headers_Some:
  "find_header s li = Some (idx, m) \<Longrightarrow> all_headers s li = (idx, m) # all_headers s (idx + hm_len m)"
  by (simp add: all_headers.simps [of s li])

lemma length_segment_plans [simp]: "length (segment_plans tx hs) = length hs"
  by (induction tx hs rule: segment_plans.induct) simp_all

section \<open>The loop computes the single-pass reading\<close>

lemma next_header_start:
  "(case fst (regex_exec tx li) of Some (j, _) \<Rightarrow> j | None \<Rightarrow> length tx) =
   (case all_headers tx li of [] \<Rightarrow> length tx | (j, _) # _ \<Rightarrow> j)"
  by (cases "find_header tx li")
    (auto simp: regex_exec_def all_headers_None all_headers_Some)

lemma extract_loop_single_pass:
  "extract_loop tx li days = days @ segment_plans tx (all_headers tx li)"
proof (induction "Suc (length tx) - li" arbitrary: li days rule: less_induct)
  case less
  show ?case
  proof (cases "find_header tx li")
    case None
    then show ?thesis by (simp add: extract_loop_None regex_exec_None all_headers_None)
  next
    case (Some p)
    obtain idx m where p: "p = (idx, m)" by (cases p)
    with Some have ex: "regex_exec tx li = (Some (idx, m), idx + hm_len m)"
      by (simp add: regex_exec_def)
    from regex_exec_Some [OF ex]
    have lt: "Suc (length tx) - (idx + hm_len m) < Suc (length tx) - li" by arith
    show ?thesis
      using less [OF lt] Some p
      by (simp add: extract_loop_Some [OF ex] all_headers_Some next_header_start)
  qed
qed

section \<open>Activities\<close>

lemma day_activities_wf: "list_all (\<lambda>a. a \<noteq> [] \<and> \<not> js_ws (hd a)) (day_activities c)"
proof -
  have "\<And>s. js_trim s \<noteq> [] \<Longrightarrow> \<not> js_ws (hd (js_trim s))"
    by (metis js_trim_no_leading list.collapse)
  then show ?thesis by (auto simp: day_activities_def list_all_iff)
qed

lemma segment_plans_wf:
  "list_all (\<lambda>p. length (activities p) \<le> 5 \<and>
                  list_all (\<lambda>a. a \<noteq> [] \<and> \<not> js_ws (hd a)) (activities p))
     (segment_plans tx hs)"
proof (induction tx hs rule: segment_plans.induct)
  case (2 tx idx m rest)
  have "list_all (\<lambda>a. a \<noteq> [] \<and> \<not> js_ws (hd a)) (take 5 (day_activities c))" for c
    by (rule list_all_take [OF day_activities_wf])
  with "2.IH" show ?case by simp
qed simp

lemma sublist_strip_marker: "sublist (strip_marker l) l"
proof (cases l)
  case (Cons c r)
  have "sublist (dropWhile js_ws r) (c # r)"
    by (rule sublist_order.order_trans [OF sublist_dropWhile]) (simp add: sublist_Cons_right)
  with Cons show ?thesis by (simp add: strip_marker_def)
qed (simp add: strip_marker_def)

lemma day_activities_sublist: "a \<in> set (day_activities c) \<Longrightarrow> sublist a c"
proof -
  assume "a \<in> set (day_activities c)"
  then obtain l where l: "l \<in> set (split_on cu_nl c)" and a: "a = js_trim (strip_marker l)"
    by (auto simp: day_activities_def)
  have "sublist a (strip_marker l)" using a by auto
  also have "sublist (strip_marker l) l" by (rule sublist_strip_marker)
  also have "sublist l c" using l by (rule sublist_split_on)
  finally show ?thesis .
qed

lemma segment_plans_sublist:
  "list_all (\<lambda>p. list_all (\<lambda>a. sublist a tx) (activities p)) (segment_plans tx hs)"
proof (induction tx hs rule: segment_plans.induct)
  case (2 tx idx m rest)
  have "list_all (\<lambda>a. sublist a tx) (take 5 (day_activities (js_substring tx idx e)))" for e
  proof (rule list_all_take)
    show "list_all (\<lambda>a. sublist a tx) (day_activities (js_substring tx idx e))"
      by (auto simp: list_all_iff dest!: day_activities_sublist
          intro: sublist_order.order_trans)
  qed
  with "2.IH" show ?case by simp
qed simp

lemma segment_plans_Nil_iff [simp]: "segment_plans tx hs = [] \<longleftrightarrow> hs = []"
  by (cases hs) auto

lemma extract_days_eq:
  "extract_days_from_text tx =
     (if all_headers tx 0 = [] then default_days else segment_plans tx (all_headers tx 0))"
  by (simp add: extract_days_from_text_def extract_loop_single_pass)

lemma default_days_wf:
  "list_all (\<lambda>p. length (activities p) \<le> 5 \<and>
                  list_all (\<lambda>a. a \<noteq> [] \<and> \<not> js_ws (hd a)) (activities p)) default_days"
  by (simp add: default_days_def js_ws_def)

lemma markers_not_ws: "list_all (\<lambda>c. \<not> js_ws c) marker_class"
  by code_simp

lemma marker_not_ws: "is_marker c \<Longrightarrow> \<not> js_ws c"
  using markers_not_ws by (simp add: is_marker_def list_all_iff)


lemma split_on_no_sep_id: "d \<notin> set s \<Longrightarrow> split_on d s = [s]"
  by (induction s) auto

lemma js_trim_Cons_ws: "js_ws w \<Longrightarrow> js_trim (w # s) = js_trim s"
  by (simp add: js_trim_def)

lemma dropWhile_snoc_keep: "\<not> P c \<Longrightarrow> \<exists>ys. dropWhile P (xs @ [c]) = ys @ [c]"
  by (induction xs) auto

lemma js_trim_Cons_keep: "\<not> js_ws c \<Longrightarrow> \<exists>r'. js_trim (c # r) = c # r'"
proof -
  assume c: "\<not> js_ws c"
  obtain ys where "dropWhile js_ws (rev r @ [c]) = ys @ [c]"
    using dropWhile_snoc_keep [of js_ws c "rev r"] c by blast
  with c show ?thesis by (simp add: js_trim_def)
qed

lemma all_headers_sound:
  "list_all (\<lambda>(i, m). li \<le> i \<and> match_header (drop i tx) = Some m) (all_headers tx li)"
proof (induction "Suc (length tx) - li" arbitrary: li rule: less_induct)
  case less
  show ?case
  proof (cases "find_header tx li")
    case None
    then show ?thesis by (simp add: all_headers_None)
  next
    case (Some p)
    obtain idx m where p: "p = (idx, m)" by (cases p)
    from find_header_Some [of tx li idx m] Some p match_header_len(1) [of "drop idx tx" m]
    have h: "li \<le> idx" "match_header (drop idx tx) = Some m"
      and lt: "Suc (length tx) - (idx + hm_len m) < Suc (length tx) - li" by auto
    have IH: "list_all (\<lambda>(i, m'). idx + hm_len m \<le> i \<and> match_header (drop i tx) = Some m')
        (all_headers tx (idx + hm_len m))"
      by (rule less [OF lt])
    have "list_all (\<lambda>(i, m'). li \<le> i \<and> match_header (drop i tx) = Some m')
        (all_headers tx (idx + hm_len m))"
      using IH h(1) by (fastforce simp: list_all_iff)
    with h show ?thesis
      by (simp add: all_headers_Some [OF Some [unfolded p]])
  qed
qed

section \<open>Properties\<close>

text \<open>
  C1. \<open>extractDaysFromText\<close> computes the single-pass reading: one day plan per header
  found by a forward scan that resumes at the end of each match, in text order, each
  segment running to the start of the next header; the skeleton when there is none.
  In particular the double \<open>exec\<close> per iteration skips no header.
\<close>

theorem extract_days_single_pass:
  "extract_days_from_text tx =
     (if all_headers tx 0 = [] then default_days else segment_plans tx (all_headers tx 0))"
  by (simp add: extract_days_from_text_def extract_loop_single_pass)

text \<open>
  C6. Every day plan the parser returns has at most five activities, and every
  activity is a non-empty string that does not start with white space.
\<close>

theorem extract_days_activities_bounded:
  "list_all (\<lambda>p. length (activities p) \<le> 5 \<and>
                  list_all (\<lambda>a. a \<noteq> [] \<and> \<not> js_ws (hd a)) (activities p))
     (extract_days_from_text tx)"
  using segment_plans_wf default_days_wf by (simp add: extract_days_eq)

text \<open>C14. Every activity of a parsed day is a piece of the text it was parsed from.\<close>

theorem extract_days_activities_from_text:
  "all_headers tx 0 \<noteq> [] \<Longrightarrow>
   list_all (\<lambda>p. list_all (\<lambda>a. sublist a tx) (activities p)) (extract_days_from_text tx)"
  using segment_plans_sublist by (simp add: extract_days_eq)

theorem extract_days_activities_from_text_witness:
  "all_headers (js ''**Day 1**'') 0 \<noteq> [] \<and>
   list_all (\<lambda>p. list_all (\<lambda>a. sublist a (js ''**Day 1**'')) (activities p))
     (extract_days_from_text (js ''**Day 1**''))"
proof -
  have h: "all_headers (js ''**Day 1**'') 0 \<noteq> []" by code_simp
  show ?thesis using extract_days_activities_from_text [OF h] h by simp
qed

text \<open>
  C16. An indented bullet keeps its marker: the filter tests the trimmed line, but the
  marker is removed from the untrimmed line, where the regex anchored at its start
  sees the indentation instead of the marker.
\<close>

theorem indented_bullet_keeps_marker:
  "js_ws w \<Longrightarrow> w \<noteq> cu_nl \<Longrightarrow> is_marker c \<Longrightarrow> cu_nl \<notin> set r \<Longrightarrow>
   day_activities (w # c # r) = [js_trim (c # r)]"
proof -
  assume w: "js_ws w" "w \<noteq> cu_nl" and c: "is_marker c" and r: "cu_nl \<notin> set r"
  from c have cw: "\<not> js_ws c" by (rule marker_not_ws)
  then obtain r' where tr: "js_trim (c # r) = c # r'" using js_trim_Cons_keep by blast
  from w have "\<not> is_marker w" using marker_not_ws by blast
  then have sm: "strip_marker (w # c # r) = w # c # r" by (simp add: strip_marker_def)
  have "js_ws cu_nl" by (simp add: js_ws_def)
  with w r cw have sp: "split_on cu_nl (w # c # r) = [w # c # r]"
    by (intro split_on_no_sep_id) auto
  have tw: "js_trim (w # c # r) = c # r'" using js_trim_Cons_ws [OF w(1)] tr by simp
  show ?thesis
    using sp sm tw tr c by (simp add: day_activities_def starts_with_marker_def)
qed

theorem indented_bullet_keeps_marker_witness:
  "day_activities (js '' - Visit the museum'') = [js ''- Visit the museum'']"
proof -
  have "js_ws 0x20" "0x20 \<noteq> cu_nl" "is_marker 0x2D" "cu_nl \<notin> set (js '' Visit the museum'')"
    by (simp_all add: js_ws_def is_marker_def marker_class_def)
  from indented_bullet_keeps_marker [OF this] show ?thesis
    by (simp add: js_trim_def js_ws_def)
qed

text \<open>
  C17. A marker of two code units (every emoji of the class is several units) loses
  only its first unit: the class matches one unit and \<open>\s*\<close> stops at the second.
\<close>

theorem multi_unit_marker_residue:
  "is_marker c \<Longrightarrow> is_marker d \<Longrightarrow> cu_nl \<notin> set r \<Longrightarrow>
   day_activities (c # d # r) = [js_trim (d # r)]"
proof -
  assume c: "is_marker c" and d: "is_marker d" and r: "cu_nl \<notin> set r"
  from c d have cw: "\<not> js_ws c" and dw: "\<not> js_ws d" by (simp_all add: marker_not_ws)
  obtain r1 where t1: "js_trim (c # d # r) = c # r1" using js_trim_Cons_keep [OF cw] by blast
  obtain r2 where t2: "js_trim (d # r) = d # r2" using js_trim_Cons_keep [OF dw] by blast
  have "js_ws cu_nl" by (simp add: js_ws_def)
  with r cw dw have "cu_nl \<notin> set (c # d # r)" by auto
  with c dw t1 t2 show ?thesis
    by (simp add: day_activities_def split_on_no_sep_id starts_with_marker_def strip_marker_def)
qed

theorem multi_unit_marker_residue_witness:
  "day_activities ([0x11F, 0x178, 0x152, 0x2026] @ js '' Morning walk'') =
   [[0x178, 0x152, 0x2026] @ js '' Morning walk'']"
proof -
  have "is_marker 0x11F" "is_marker 0x178" "cu_nl \<notin> set ([0x152, 0x2026] @ js '' Morning walk'')"
    by (simp_all add: is_marker_def marker_class_def)
  from multi_unit_marker_residue [OF this] show ?thesis
    by (simp add: js_trim_def js_ws_def)
qed

end
