(* ===== verification/AiPath.thy ===== *)
theory AiPath
  imports Fallback DayParser
begin

text \<open>
  The AI path of the generation handler (\<open>src/backend/server.js\<close>, lines 70--121):
  the prompt built from the request (lines 73--88), the call to the external
  text-generation service and the \<open>for await\<close> loop that forwards every chunk as a
  token frame while accumulating the full text (lines 90--97), the itinerary built
  from the full text with \<open>extractDaysFromText\<close> (lines 100--111), and the usage
  metrics estimated from lengths (lines 114--120). The external service is a
  parameter: for a prompt it yields a finite list of chunks and then either finishes
  (\<open>AIOk\<close>) or raises (\<open>AIFail\<close>, the chunks it yielded before raising; a failure of
  the call itself is \<open>AIFail []\<close>).
\<close>

section \<open>The prompt\<close>

definition prompt_template :: "jstr \<Rightarrow> jstr \<Rightarrow> jstr \<Rightarrow> jstr \<Rightarrow> jstr" where
  "prompt_template dest dur bud ints =
     js ''Create a detailed travel itinerary for: '' @ dest @ [cu_nl] @
     js ''    '' @ [cu_nl] @
     js ''Duration: '' @ dur @ js '' days'' @ [cu_nl] @
     js ''Budget: $'' @ bud @ js '' per person'' @ [cu_nl] @
     js ''Interests: '' @ ints @ [cu_nl, cu_nl] @
     js ''Please provide:'' @ [cu_nl] @
     js ''1. Day-by-day detailed itinerary with specific activities and timings'' @ [cu_nl] @
     js ''2. Recommended restaurants and local cuisines'' @ [cu_nl] @
     js ''3. Transportation tips'' @ [cu_nl] @
     js ''4. Budget breakdown'' @ [cu_nl] @
     js ''5. Cultural insights and local tips'' @ [cu_nl] @
     js ''6. Weather considerations'' @ [cu_nl] @
     js ''7. Packing suggestions'' @ [cu_nl, cu_nl] @
     js ''Format the response with clear headings, emojis, and helpful details. Make it engaging and practical.''"

text \<open>The template literal \<open>aiPrompt\<close>: its substitutions are converted left to
  right, and each may throw.\<close>

definition ai_prompt :: "gen_request \<Rightarrow> js_error + jstr" where
  "ai_prompt r =
     js_bind (to_jstr (final_destination r)) (\<lambda>d.
     js_bind (to_jstr (duration_or_default r)) (\<lambda>du.
     js_bind (to_jstr (budget_or_default r)) (\<lambda>bu.
     js_bind (opt_join (interests r) (js '', '')) (\<lambda>j.
     js_bind (to_jstr (js_or_lit j (JStr (js ''General sightseeing, culture, food'')))) (\<lambda>h.
     Inr (prompt_template d du bu h))))))"

section \<open>The external service and the stream\<close>

datatype ai_outcome = AIOk "jstr list" | AIFail "jstr list"

type_synonym ai_service = "jstr \<Rightarrow> ai_outcome"

text \<open>One iteration per chunk: \<open>fullText += chunkText; sendToken(chunkText)\<close>.\<close>

primrec stream_chunks :: "jstr list \<Rightarrow> jstr \<times> out_log \<Rightarrow> jstr \<times> out_log" where
  "stream_chunks [] st = st"
| "stream_chunks (c # cs) st = stream_chunks cs (fst st @ c, snd st @ [OWrite (FToken c)])"

section \<open>The result\<close>

text \<open>The metrics of lines 114--118: character counts divided by four, rounded down.\<close>

definition estimate_metrics :: "jstr \<Rightarrow> jstr \<Rightarrow> usage_metrics" where
  "estimate_metrics p full =
     \<lparr>prompt_tokens = length p div 4, completion_tokens = length full div 4,
      total_tokens = (length p + length full) div 4\<rparr>"

definition ai_itinerary :: "gen_request \<Rightarrow> nat \<Rightarrow> jstr \<Rightarrow> js_error + itinerary" where
  "ai_itinerary r now full =
     js_bind (to_jstr (final_destination r)) (\<lambda>d.
       Inr \<lparr>it_id = now, it_destination = final_destination r, it_duration = duration_or_default r,
            it_budget = budget_or_default r, it_description = js ''AI-generated trip to '' @ d,
            it_full_text = Some full, it_days = extract_days_from_text full,
            it_interests = Some (interests_or_empty r)\<rparr>)"

text \<open>Lines 70--121 of the \<open>try\<close> block; \<open>Inl\<close> is the exception that reaches the
  \<open>catch\<close>, with the log as it stands when it is thrown.\<close>

definition generate_ai ::
  "ai_service \<Rightarrow> gen_request \<Rightarrow> nat \<Rightarrow> out_log \<Rightarrow> (js_error + unit) \<times> out_log" where
  "generate_ai ai r now log =
     (case ai_prompt r of
        Inl e \<Rightarrow> (Inl e, log)
      | Inr p \<Rightarrow>
          (case ai p of
             AIFail cs \<Rightarrow> (Inl ServiceError, snd (stream_chunks cs ([], log)))
           | AIOk cs \<Rightarrow>
               (let (full, log1) = stream_chunks cs ([], log)
                in (case ai_itinerary r now full of
                      Inl e \<Rightarrow> (Inl e, log1)
                    | Inr it \<Rightarrow>
                        (let log2 = log1 @ [OWrite (FItinerary it)];
                             log3 = log2 @ [OWrite (FMetrics (estimate_metrics p full))]
                         in (Inr (), log3 @ [OEnd]))))))"

section \<open>Properties\<close>

text \<open>
  C11. The metrics are the rounded-down quarters of the UTF-16 lengths of the prompt
  and of the full text, and the total is their sum plus the carry of the two
  remainders: one more exactly when the remainders of the two lengths modulo four add
  up to four or more.
\<close>

theorem estimate_metrics_exact:
  "4 * prompt_tokens (estimate_metrics p f) \<le> length p \<and>
   length p < 4 * prompt_tokens (estimate_metrics p f) + 4 \<and>
   4 * completion_tokens (estimate_metrics p f) \<le> length f \<and>
   length f < 4 * completion_tokens (estimate_metrics p f) + 4 \<and>
   total_tokens (estimate_metrics p f) =
     prompt_tokens (estimate_metrics p f) + completion_tokens (estimate_metrics p f) +
     (if 4 \<le> length p mod 4 + length f mod 4 then 1 else 0)"
proof -
  have eq: "(length p + length f) div 4 =
      length p div 4 + length f div 4 + (length p mod 4 + length f mod 4) div 4"
    by (rule div_add1_eq)
  have "length p mod 4 < 4" "length f mod 4 < 4" by simp_all
  then have c: "(length p mod 4 + length f mod 4) div 4 = (if 4 \<le> length p mod 4 + length f mod 4 then 1 else 0)"
    by (auto simp: le_div_geq div_less)
  have bp: "4 * (length p div 4) \<le> length p \<and> length p < 4 * (length p div 4) + 4"
    using div_mult_mod_eq [of "length p" 4] mod_less_divisor [of 4 "length p"] by linarith
  have bf: "4 * (length f div 4) \<le> length f \<and> length f < 4 * (length f div 4) + 4"
    using div_mult_mod_eq [of "length f" 4] mod_less_divisor [of 4 "length f"] by linarith
  show ?thesis unfolding estimate_metrics_def using eq c bp bf by simp
qed

end
