(* ===== verification/Handler.thy ===== *)
theory Handler
  imports AiPath
begin

text \<open>
  The generation endpoint \<open>POST /generate-itinerary\<close> (\<open>src/backend/server.js\<close>,
  lines 27--221): it sets the streaming headers, validates the request (a 400 JSON
  error when neither destination nor prompt is given), then runs the \<open>try\<close> block:
  the fallback generator in demo mode (no API key, or the key \<open>demo-key\<close>),
  otherwise the AI path. Whatever the \<open>try\<close> block throws is caught and the fallback
  generator runs once more; what that second call throws escapes the async handler
  as an unhandled rejection, and the response is never ended. The response is the
  log of what the handler did to it. \<open>resp_step\<close> is the response protocol of the
  specification (section 4.6): headers, token frames, one itinerary summary, one
  metrics frame, end, or the 400 error body and end; nothing after the end.
\<close>

record server_env =
  gemini_api_key :: "jstr option"
  clock :: nat

datatype handler_outcome = Completed | Rejected js_error

text \<open>Line 63: \<open>!process.env.GEMINI_API_KEY || process.env.GEMINI_API_KEY === 'demo-key'\<close>.\<close>

definition demo_mode :: "server_env \<Rightarrow> bool" where
  "demo_mode env \<longleftrightarrow>
     (case gemini_api_key env of None \<Rightarrow> True | Some k \<Rightarrow> k = [] \<or> k = js ''demo-key'')"

definition stream_headers :: out_log where
  "stream_headers =
     [OHeader ''Content-Type'' ''text/plain; charset=utf-8'',
      OHeader ''Cache-Control'' ''no-cache'',
      OHeader ''Connection'' ''keep-alive'',
      OHeader ''Access-Control-Allow-Origin'' ''*'']"

definition validation_error_body :: "(jstr \<times> jval) list" where
  "validation_error_body = [(js ''error'', JStr (js ''Destination or prompt is required''))]"

text \<open>The \<open>try\<close> block, lines 61--122.\<close>

definition try_block ::
  "server_env \<Rightarrow> ai_service \<Rightarrow> gen_request \<Rightarrow> out_log \<Rightarrow> (js_error + unit) \<times> out_log" where
  "try_block env ai r log =
     (if demo_mode env then generate_demo r (clock env) log
      else generate_ai ai r (clock env) log)"

definition generate_itinerary ::
  "server_env \<Rightarrow> ai_service \<Rightarrow> gen_request \<Rightarrow> out_log \<times> handler_outcome" where
  "generate_itinerary env ai r =
     (let log0 = stream_headers in
      if request_rejected r
      then (log0 @ [OStatus 400, OJson validation_error_body, OEnd], Completed)
      else
        (case to_jstr (final_destination r) of
           Inl e \<Rightarrow> (log0, Rejected e)
         | Inr _ \<Rightarrow>
             (case try_block env ai r log0 of
                (Inr _, log1) \<Rightarrow> (log1, Completed)
              | (Inl _, log1) \<Rightarrow>
                  (case generate_demo r (clock env) log1 of
                     (Inr _, log2) \<Rightarrow> (log2, Completed)
                   | (Inl e, log2) \<Rightarrow> (log2, Rejected e)))))"

text \<open>The request of the specification's end-to-end scenario:
  \<open>{destination: "Paris", duration: "2", interests: ["food"]}\<close>.\<close>

definition paris_request :: gen_request where
  "paris_request = empty_request\<lparr>destination := Some (JStr (js ''Paris'')),
     duration := Some (JStr (js ''2'')), interests := Some (JArr [JStr (js ''food'')])\<rparr>"

section \<open>The response protocol\<close>

datatype resp_phase = Preparing | Streaming | Summarized | Metered | ErrorSent | Closed

fun resp_step :: "resp_phase \<Rightarrow> out_event \<Rightarrow> resp_phase option" where
  "resp_step Preparing (OHeader n v) = Some Preparing"
| "resp_step Preparing (OStatus s) = Some Preparing"
| "resp_step Preparing (OJson b) = Some ErrorSent"
| "resp_step Preparing (OWrite (FToken t)) = Some Streaming"
| "resp_step Streaming (OWrite (FToken t)) = Some Streaming"
| "resp_step Preparing (OWrite (FItinerary i)) = Some Summarized"
| "resp_step Streaming (OWrite (FItinerary i)) = Some Summarized"
| "resp_step Summarized (OWrite (FMetrics m)) = Some Metered"
| "resp_step Metered OEnd = Some Closed"
| "resp_step ErrorSent OEnd = Some Closed"
| "resp_step _ _ = None"

fun run_protocol :: "resp_phase \<Rightarrow> out_log \<Rightarrow> resp_phase option" where
  "run_protocol ph [] = Some ph"
| "run_protocol ph (e # es) = (case resp_step ph e of None \<Rightarrow> None | Some ph' \<Rightarrow> run_protocol ph' es)"

section \<open>Completed streams\<close>

abbreviation finish :: "itinerary \<Rightarrow> usage_metrics \<Rightarrow> out_log" where
  "finish i m \<equiv> [OWrite (FItinerary i), OWrite (FMetrics m), OEnd]"

text \<open>
  Every run of the handler ends in one of three shapes: the 400 error, a stream of
  tokens closed by the summary and the metrics of this request, or the headers alone
  after an exception that escaped the second fallback.
\<close>

definition completed_stream :: "gen_request \<Rightarrow> out_log \<Rightarrow> bool" where
  "completed_stream r log \<longleftrightarrow>
     (\<exists>ts i m. log = stream_headers @ tokens_of ts @ finish i m \<and>
        it_destination i = final_destination r \<and> it_duration i = duration_or_default r \<and>
        it_budget i = budget_or_default r)"

section \<open>Lemmas\<close>

lemma send_tokens_eq [simp]: "send_tokens ps log = log @ tokens_of ps"
  by (induction ps arbitrary: log) simp_all

lemma stream_chunks_eq [simp]:
  "stream_chunks cs (acc, log) = (acc @ concat cs, log @ tokens_of cs)"
  by (induction cs arbitrary: acc log) simp_all

lemma generate_demo_eq:
  "generate_demo r now log =
     (case demo_parts r of
        Inl e \<Rightarrow> (Inl e, log)
      | Inr ps \<Rightarrow>
          (case demo_itinerary r now of
             Inl e \<Rightarrow> (Inl e, log @ tokens_of ps)
           | Inr it \<Rightarrow> (Inr (), log @ tokens_of ps @ finish it demo_metrics)))"
  by (simp add: generate_demo_def split: sum.split)

lemma generate_ai_eq:
  "generate_ai ai r now log =
     (case ai_prompt r of
        Inl e \<Rightarrow> (Inl e, log)
      | Inr p \<Rightarrow>
          (case ai p of
             AIFail cs \<Rightarrow> (Inl ServiceError, log @ tokens_of cs)
           | AIOk cs \<Rightarrow>
               (case ai_itinerary r now (concat cs) of
                  Inl e \<Rightarrow> (Inl e, log @ tokens_of cs)
                | Inr it \<Rightarrow>
                    (Inr (), log @ tokens_of cs @ finish it (estimate_metrics p (concat cs))))))"
  by (simp add: generate_ai_def split: sum.split ai_outcome.split)

text \<open>The fragments and the prompt convert the same fields: both succeed or both throw,
  and success includes the conversion of the destination.\<close>

lemma demo_parts_iff_ai_prompt: "(\<exists>ps. demo_parts r = Inr ps) \<longleftrightarrow> (\<exists>p. ai_prompt r = Inr p)"
proof -
  have h: "opt_join (interests r) (js '', '') = Inr j \<Longrightarrow> \<exists>x. to_jstr (js_or_lit j (JStr d)) = Inr x"
    for j d by (rule opt_join_or_default)
  show ?thesis
    unfolding demo_parts_def ai_prompt_def js_bind_Inr_iff by (blast dest: h)
qed

lemma demo_parts_error: "demo_parts r = Inl e \<Longrightarrow> e = TypeError"
  by (auto simp: demo_parts_def js_bind_def dest: to_jstr_error opt_join_error split: sum.splits)

lemma ai_prompt_error: "ai_prompt r = Inl e \<Longrightarrow> e = TypeError"
  by (auto simp: ai_prompt_def js_bind_def dest: to_jstr_error opt_join_error split: sum.splits)

lemma demo_parts_destination: "demo_parts r = Inr ps \<Longrightarrow> \<exists>d. to_jstr (final_destination r) = Inr d"
  by (auto simp: demo_parts_def js_bind_Inr_iff)

lemma demo_itinerary_ok:
  "to_jstr (final_destination r) = Inr d \<Longrightarrow>
   \<exists>it. demo_itinerary r now = Inr it \<and> it_destination it = final_destination r \<and>
     it_duration it = duration_or_default r \<and> it_budget it = budget_or_default r"
  by (simp add: demo_itinerary_def)

lemma ai_itinerary_ok:
  "to_jstr (final_destination r) = Inr d \<Longrightarrow>
   \<exists>it. ai_itinerary r now full = Inr it \<and> it_destination it = final_destination r \<and>
     it_duration it = duration_or_default r \<and> it_budget it = budget_or_default r"
  by (simp add: ai_itinerary_def)

lemma run_protocol_append:
  "run_protocol ph (xs @ ys) =
     (case run_protocol ph xs of None \<Rightarrow> None | Some ph' \<Rightarrow> run_protocol ph' ys)"
  by (induction ph xs rule: run_protocol.induct) (auto split: option.split)

lemma run_protocol_tokens:
  "run_protocol Streaming (tokens_of ts) = Some Streaming"
  "run_protocol Preparing (tokens_of ts) = Some (if ts = [] then Preparing else Streaming)"
proof -
  show s: "run_protocol Streaming (tokens_of ts) = Some Streaming"
    by (induction ts) simp_all
  show "run_protocol Preparing (tokens_of ts) = Some (if ts = [] then Preparing else Streaming)"
    using s by (cases ts) simp_all
qed

lemma run_protocol_stream:
  "run_protocol Preparing (stream_headers @ tokens_of ts @ finish i m) = Some Closed"
  by (cases "ts = []") (simp_all add: run_protocol_append run_protocol_tokens stream_headers_def)

lemma completed_stream_intro:
  "it_destination it = final_destination r \<Longrightarrow> it_duration it = duration_or_default r \<Longrightarrow>
   it_budget it = budget_or_default r \<Longrightarrow> completed_stream r (stream_headers @ tokens_of ts @ finish it m)"
  unfolding completed_stream_def by blast

lemma generate_itinerary_shape:
  "generate_itinerary env ai r =
     (if request_rejected r
      then (stream_headers @ [OStatus 400, OJson validation_error_body, OEnd], Completed)
      else (fst (generate_itinerary env ai r), snd (generate_itinerary env ai r))) \<and>
   (\<not> request_rejected r \<longrightarrow>
      (snd (generate_itinerary env ai r) = Completed \<and>
       completed_stream r (fst (generate_itinerary env ai r))) \<or>
      (snd (generate_itinerary env ai r) = Rejected TypeError \<and>
       fst (generate_itinerary env ai r) = stream_headers))"
proof (cases "request_rejected r")
  case True
  then show ?thesis by (simp add: generate_itinerary_def)
next
  case nr: False
  show ?thesis
  proof (cases "to_jstr (final_destination r)")
    case (Inl e)
    with to_jstr_error [OF Inl] nr show ?thesis by (simp add: generate_itinerary_def)
  next
    case d: (Inr d)
    show ?thesis
    proof (cases "demo_parts r")
      case (Inl e)
      with demo_parts_iff_ai_prompt [of r] obtain e' where ap: "ai_prompt r = Inl e'"
        by (cases "ai_prompt r") auto
      with Inl nr d demo_parts_error [OF Inl] show ?thesis
        by (simp add: generate_itinerary_def try_block_def generate_demo_eq generate_ai_eq)
    next
      case ps: (Inr ps)
      with demo_parts_iff_ai_prompt [of r] obtain p where ap: "ai_prompt r = Inr p" by auto
      from demo_itinerary_ok [OF d, of "clock env"] obtain it where
        it: "demo_itinerary r (clock env) = Inr it" and c: "completed_stream r (stream_headers @ tokens_of ts @ finish it demo_metrics)" for ts
        by (auto intro: completed_stream_intro)
      show ?thesis
      proof (cases "demo_mode env")
        case True
        with nr d ps it c [of ps] show ?thesis
          by (simp add: generate_itinerary_def try_block_def generate_demo_eq)
      next
        case dm: False
        show ?thesis
        proof (cases "ai p")
          case (AIOk cs)
          from ai_itinerary_ok [OF d, of "clock env" "concat cs"] obtain it' where
            it': "ai_itinerary r (clock env) (concat cs) = Inr it'"
            and c': "completed_stream r (stream_headers @ tokens_of cs @ finish it' (estimate_metrics p (concat cs)))"
            by (auto intro: completed_stream_intro)
          with nr d dm ap AIOk show ?thesis
            by (simp add: generate_itinerary_def try_block_def generate_ai_eq)
        next
          case (AIFail cs)
          with nr d dm ap ps it c [of "cs @ ps"] show ?thesis
            by (simp add: generate_itinerary_def try_block_def generate_ai_eq generate_demo_eq)
        qed
      qed
    qed
  qed
qed

lemma finish_not_token: "OWrite (FItinerary i) \<notin> set (tokens_of ts)"
  by (induction ts) simp_all

lemma stream_headers_no_itinerary: "OWrite (FItinerary i) \<notin> set stream_headers"
  by (simp add: stream_headers_def)

section \<open>Properties\<close>

text \<open>
  C2. Every run of the handler follows the response protocol: the headers, then token
  frames, then exactly one itinerary summary and one metrics frame, then the end (or
  the 400 error body and the end); nothing is written after the end. A run whose
  exception escaped the handler leaves the response open with the headers alone.
\<close>

theorem generate_itinerary_protocol:
  "run_protocol Preparing (fst (generate_itinerary env ai r)) =
     Some (if snd (generate_itinerary env ai r) = Completed then Closed else Preparing)"
proof (cases "request_rejected r")
  case True
  then show ?thesis by (simp add: generate_itinerary_def stream_headers_def)
next
  case False
  with generate_itinerary_shape [of env ai r]
  have "(snd (generate_itinerary env ai r) = Completed \<and>
         completed_stream r (fst (generate_itinerary env ai r))) \<or>
        (snd (generate_itinerary env ai r) = Rejected TypeError \<and>
         fst (generate_itinerary env ai r) = stream_headers)"
    by blast
  then show ?thesis
  proof
    assume "snd (generate_itinerary env ai r) = Completed \<and>
            completed_stream r (fst (generate_itinerary env ai r))"
    then show ?thesis by (auto simp: completed_stream_def run_protocol_stream)
  next
    assume "snd (generate_itinerary env ai r) = Rejected TypeError \<and>
            fst (generate_itinerary env ai r) = stream_headers"
    then show ?thesis by (simp add: stream_headers_def)
  qed
qed

text \<open>
  C3. A request with neither destination nor prompt gets the 400 JSON error and no
  stream frame. The streaming headers have already been set by then.
\<close>

theorem validation_rejects_before_stream:
  "request_rejected r \<Longrightarrow>
   generate_itinerary env ai r =
     (stream_headers @ [OStatus 400, OJson validation_error_body, OEnd], Completed)"
  by (simp add: generate_itinerary_def)

theorem validation_rejects_before_stream_witness:
  "request_rejected empty_request \<and>
   generate_itinerary \<lparr>gemini_api_key = None, clock = 0\<rparr> (\<lambda>_. AIOk []) empty_request =
     (stream_headers @ [OStatus 400, OJson validation_error_body, OEnd], Completed)"
proof -
  have h: "request_rejected empty_request" by (simp add: request_rejected_def empty_request_def)
  from validation_rejects_before_stream [OF h] h show ?thesis by simp
qed

text \<open>
  C4. When the AI service fails after yielding some chunks, the tokens already sent
  stay on the stream and the fallback generator completes it: its tokens, its summary
  and its fixed metrics.
\<close>

theorem ai_failure_falls_back:
  "\<not> request_rejected r \<Longrightarrow> \<not> demo_mode env \<Longrightarrow> ai_prompt r = Inr p \<Longrightarrow> ai p = AIFail cs \<Longrightarrow>
   \<exists>ps it. demo_parts r = Inr ps \<and> demo_itinerary r (clock env) = Inr it \<and>
     generate_itinerary env ai r =
       (stream_headers @ tokens_of cs @ tokens_of ps @ finish it demo_metrics, Completed)"
proof -
  assume h: "\<not> request_rejected r" "\<not> demo_mode env" "ai_prompt r = Inr p" "ai p = AIFail cs"
  from h(3) demo_parts_iff_ai_prompt [of r] obtain ps where ps: "demo_parts r = Inr ps" by auto
  from demo_parts_destination [OF ps] obtain d where d: "to_jstr (final_destination r) = Inr d" by blast
  from demo_itinerary_ok [OF d, of "clock env"] obtain it where it: "demo_itinerary r (clock env) = Inr it"
    by blast
  from h ps d it show ?thesis
    by (simp add: generate_itinerary_def try_block_def generate_ai_eq generate_demo_eq)
qed

theorem ai_failure_falls_back_witness:
  "\<exists>ps it. demo_parts paris_request = Inr ps \<and> demo_itinerary paris_request 7 = Inr it \<and>
     generate_itinerary \<lparr>gemini_api_key = Some (js ''key''), clock = 7\<rparr>
         (\<lambda>_. AIFail [js ''**Day 1**'']) paris_request =
       (stream_headers @ tokens_of [js ''**Day 1**''] @ tokens_of ps @ finish it demo_metrics, Completed)"
proof -
  have r: "\<not> request_rejected paris_request"
    by (simp add: request_rejected_def paris_request_def empty_request_def)
  have d: "\<not> demo_mode \<lparr>gemini_api_key = Some (js ''key''), clock = 7\<rparr>"
    by (simp add: demo_mode_def)
  obtain p where p: "ai_prompt paris_request = Inr p"
    by (simp add: ai_prompt_def paris_request_def empty_request_def opt_join_def arr_join_def
        final_destination_def js_or_def js_or_lit_def duration_or_default_def budget_or_default_def
        del: js_Cons)
  have a: "(\<lambda>_. AIFail [js ''**Day 1**'']) p = AIFail [js ''**Day 1**'']" by simp
  from ai_failure_falls_back [OF r d p a] show ?thesis by simp
qed

text \<open>
  C15. An \<open>interests\<close> value that is neither an array nor \<open>null\<close> makes
  \<open>interests?.join\<close> throw in the \<open>try\<close> block and again in the fallback called from
  the \<open>catch\<close>; the second exception escapes the handler and the response is never
  ended: the client waits on a stream that only carries headers.
\<close>

theorem non_array_interests_never_end:
  "\<not> request_rejected r \<Longrightarrow> interests r = Some x \<Longrightarrow> x \<noteq> JNull \<Longrightarrow> (\<forall>xs. x \<noteq> JArr xs) \<Longrightarrow>
   generate_itinerary env ai r = (stream_headers, Rejected TypeError)"
proof -
  assume h: "\<not> request_rejected r" "interests r = Some x" "x \<noteq> JNull" "\<forall>xs. x \<noteq> JArr xs"
  then have j: "opt_join (interests r) (js '', '') = Inl TypeError"
    by (simp add: opt_join_non_array)
  have dp: "demo_parts r = Inl TypeError" and ap: "ai_prompt r = Inl TypeError"
    using j by (auto simp: demo_parts_def ai_prompt_def js_bind_def dest: to_jstr_error split: sum.splits)
  show ?thesis
  proof (cases "to_jstr (final_destination r)")
    case (Inl e)
    with to_jstr_error [OF Inl] h(1) show ?thesis by (simp add: generate_itinerary_def)
  next
    case (Inr d)
    with h(1) dp ap show ?thesis
      by (simp add: generate_itinerary_def try_block_def generate_ai_eq generate_demo_eq)
  qed
qed

theorem non_array_interests_never_end_witness:
  "generate_itinerary \<lparr>gemini_api_key = None, clock = 0\<rparr> (\<lambda>_. AIOk [])
     (paris_request\<lparr>interests := Some (JStr (js ''food''))\<rparr>) = (stream_headers, Rejected TypeError)"
proof -
  have r: "\<not> request_rejected (paris_request\<lparr>interests := Some (JStr (js ''food''))\<rparr>)"
    by (simp add: request_rejected_def paris_request_def empty_request_def)
  have i: "interests (paris_request\<lparr>interests := Some (JStr (js ''food''))\<rparr>) = Some (JStr (js ''food''))"
    by simp
  show ?thesis by (rule non_array_interests_never_end [OF r i]) simp_all
qed

text \<open>
  C8. On the AI path the stream carries every chunk the service yielded as a token,
  and the summary is the itinerary built from the request (its destination, duration
  and budget converted to strings) whose full text is exactly the concatenation of the
  chunks and whose days are parsed from that text; its metrics are estimated from the
  prompt and that text.
\<close>

theorem ai_success_stream:
  "\<not> request_rejected r \<Longrightarrow> \<not> demo_mode env \<Longrightarrow> ai_prompt r = Inr p \<Longrightarrow> ai p = AIOk cs \<Longrightarrow>
   \<exists>it. ai_itinerary r (clock env) (concat cs) = Inr it \<and> it_full_text it = Some (concat cs) \<and>
     it_days it = extract_days_from_text (concat cs) \<and>
     generate_itinerary env ai r =
       (stream_headers @ tokens_of cs @ finish it (estimate_metrics p (concat cs)), Completed)"
proof -
  assume h: "\<not> request_rejected r" "\<not> demo_mode env" "ai_prompt r = Inr p" "ai p = AIOk cs"
  from h(3) demo_parts_iff_ai_prompt [of r] obtain ps where "demo_parts r = Inr ps" by auto
  from demo_parts_destination [OF this] obtain d where d: "to_jstr (final_destination r) = Inr d" by blast
  then have it: "ai_itinerary r (clock env) (concat cs) =
      Inr \<lparr>it_id = clock env, it_destination = final_destination r, it_duration = duration_or_default r,
            it_budget = budget_or_default r, it_description = js ''AI-generated trip to '' @ d,
            it_full_text = Some (concat cs), it_days = extract_days_from_text (concat cs),
            it_interests = Some (interests_or_empty r)\<rparr>"
    by (simp add: ai_itinerary_def)
  from h d it show ?thesis
    by (simp add: generate_itinerary_def try_block_def generate_ai_eq)
qed

theorem ai_success_stream_witness:
  "\<exists>p it. ai_prompt paris_request = Inr p \<and>
     ai_itinerary paris_request 7 (js ''**Day 1** Louvre'') = Inr it \<and>
     generate_itinerary \<lparr>gemini_api_key = Some (js ''key''), clock = 7\<rparr>
         (\<lambda>_. AIOk [js ''**Day 1**'', js '' Louvre'']) paris_request =
     (stream_headers @ tokens_of [js ''**Day 1**'', js '' Louvre''] @
        finish it (estimate_metrics p (js ''**Day 1** Louvre'')), Completed)"
proof -
  have r: "\<not> request_rejected paris_request"
    by (simp add: request_rejected_def paris_request_def empty_request_def)
  have d: "\<not> demo_mode \<lparr>gemini_api_key = Some (js ''key''), clock = 7\<rparr>"
    by (simp add: demo_mode_def)
  obtain p where p: "ai_prompt paris_request = Inr p"
    by (simp add: ai_prompt_def paris_request_def empty_request_def opt_join_def arr_join_def
        final_destination_def js_or_def js_or_lit_def duration_or_default_def budget_or_default_def
        del: js_Cons)
  have a: "(\<lambda>_. AIOk [js ''**Day 1**'', js '' Louvre'']) p = AIOk [js ''**Day 1**'', js '' Louvre'']"
    by simp
  from ai_success_stream [OF r d p a] p show ?thesis by auto
qed

text \<open>
  C9. Omitting \<open>duration\<close> and \<open>budget\<close> yields \<open>"3"\<close> and \<open>"1000"\<close> in whatever
  itinerary summary the handler writes, on every path.
\<close>

theorem itinerary_defaults:
  "duration r = None \<Longrightarrow> budget r = None \<Longrightarrow>
   OWrite (FItinerary i) \<in> set (fst (generate_itinerary env ai r)) \<Longrightarrow>
   it_duration i = JStr (js ''3'') \<and> it_budget i = JStr (js ''1000'')"
proof -
  assume d: "duration r = None" "budget r = None"
    and i: "OWrite (FItinerary i) \<in> set (fst (generate_itinerary env ai r))"
  from generate_itinerary_shape [of env ai r] i
  have "completed_stream r (fst (generate_itinerary env ai r))"
    by (auto simp: generate_itinerary_def stream_headers_def split: if_splits)
  then obtain ts i' m where log: "fst (generate_itinerary env ai r) = stream_headers @ tokens_of ts @ finish i' m"
    and i': "it_duration i' = duration_or_default r" "it_budget i' = budget_or_default r"
    by (auto simp: completed_stream_def)
  from i log have "i = i'" by (auto simp: finish_not_token stream_headers_no_itinerary)
  with i' d show ?thesis by (simp add: duration_or_default_def budget_or_default_def)
qed

theorem itinerary_defaults_witness:
  "\<exists>it. demo_itinerary (paris_request\<lparr>duration := None\<rparr>) 0 = Inr it \<and>
     OWrite (FItinerary it) \<in> set (fst (generate_itinerary \<lparr>gemini_api_key = None, clock = 0\<rparr>
                                        (\<lambda>_. AIOk []) (paris_request\<lparr>duration := None\<rparr>))) \<and>
     it_duration it = JStr (js ''3'') \<and> it_budget it = JStr (js ''1000'')"
proof -
  let ?r = "paris_request\<lparr>duration := None\<rparr>"
  let ?env = "\<lparr>gemini_api_key = None, clock = 0\<rparr>"
  have nr: "\<not> request_rejected ?r"
    by (simp add: request_rejected_def paris_request_def empty_request_def)
  have d: "to_jstr (final_destination ?r) = Inr (js ''Paris'')"
    by (simp add: paris_request_def empty_request_def final_destination_def js_or_def js_or_lit_def
        del: js_Cons)
  obtain ps where ps: "demo_parts ?r = Inr ps"
    by (simp add: demo_parts_def paris_request_def empty_request_def opt_join_def arr_join_def
        final_destination_def js_or_def js_or_lit_def duration_or_default_def budget_or_default_def
        del: js_Cons)
  from demo_itinerary_ok [OF d, of 0] obtain it where it: "demo_itinerary ?r 0 = Inr it" by blast
  have dm: "demo_mode ?env" by (simp add: demo_mode_def)
  have mem: "OWrite (FItinerary it) \<in> set (fst (generate_itinerary ?env (\<lambda>_. AIOk []) ?r))"
    using nr d ps it dm by (simp add: generate_itinerary_def try_block_def generate_demo_eq)
  have "duration ?r = None" "budget ?r = None"
    by (simp_all add: paris_request_def empty_request_def)
  from itinerary_defaults [OF this mem] mem it show ?thesis by blast
qed

text \<open>
  C13. A destination (or prompt) that is a JSON object with its own \<open>toString\<close> key
  passes validation, being truthy, but the template literal of the log line 44
  cannot convert it: the \<open>TypeError\<close> is thrown before the \<open>try\<close> block, escapes
  the async handler, and the response stays open with the headers alone, whatever the
  environment and the AI service.
\<close>

theorem object_destination_never_ends:
  "\<not> request_rejected r \<Longrightarrow> final_destination r = JObj ps \<Longrightarrow> map_of ps (js ''toString'') \<noteq> None \<Longrightarrow>
   generate_itinerary env ai r = (stream_headers, Rejected TypeError)"
proof -
  assume h: "\<not> request_rejected r" "final_destination r = JObj ps" "map_of ps (js ''toString'') \<noteq> None"
  from to_jstr_object_error [OF h(3)] h(2) have "to_jstr (final_destination r) = Inl TypeError" by simp
  with h(1) show ?thesis by (simp add: generate_itinerary_def)
qed

theorem object_destination_never_ends_witness:
  "generate_itinerary \<lparr>gemini_api_key = None, clock = 0\<rparr> (\<lambda>_. AIOk [])
     (empty_request\<lparr>destination := Some (JObj [(js ''toString'', JStr (js ''x''))])\<rparr>) =
   (stream_headers, Rejected TypeError)"
proof -
  let ?r = "empty_request\<lparr>destination := Some (JObj [(js ''toString'', JStr (js ''x''))])\<rparr>"
  have nr: "\<not> request_rejected ?r" by (simp add: request_rejected_def empty_request_def)
  have f: "final_destination ?r = JObj [(js ''toString'', JStr (js ''x''))]"
    by (simp add: final_destination_def js_or_def js_or_lit_def empty_request_def del: js_Cons)
  have k: "map_of [(js ''toString'', JStr (js ''x''))] (js ''toString'') \<noteq> None" by simp
  from object_destination_never_ends [OF nr f k] show ?thesis .
qed

end
