(* ===== verification/Catalog.thy ===== *)
theory Catalog
  imports Complex_Main JsValue
begin

text \<open>
  The catalog endpoints of \<open>src/backend/server.js\<close> (lines 17--24 and 260--464):
  \<open>GET /health\<close>, \<open>GET /destinations\<close>, \<open>GET /tips\<close> and the four simulated searches
  \<open>POST /search-flights\<close>, \<open>/search-hotels\<close>, \<open>/search-cars\<close> and
  \<open>/search-restaurants\<close>. Each object literal of the source is a record, with the
  fields in the source's order; a field filled from the request with \<open>field || 'default'\<close>
  holds a JSON value, since \<open>||\<close> passes a truthy value of any type through. Each
  search answers \<open>{results, searchParams: req.body}\<close>, echoing the parsed body.
  The error bodies of the 500 and 404 handlers (lines 467--481) close the theory.
\<close>

record destination_entry =
  dst_id :: nat
  dst_name :: jstr
  dst_description :: jstr

record flight =
  fl_id :: nat
  fl_airline :: jstr
  fl_from :: jval
  fl_to :: jval
  fl_depart_time :: jstr
  fl_arrive_time :: jstr
  fl_duration :: jstr
  fl_price :: nat
  fl_stops :: nat

record hotel =
  ht_id :: nat
  ht_name :: jstr
  ht_location :: jval
  ht_rating :: nat
  ht_price :: nat
  ht_currency :: jstr
  ht_amenities :: "jstr list"
  ht_image :: jstr

record car =
  car_id :: nat
  car_brand :: jstr
  car_model :: jstr
  car_type :: jstr
  car_location :: jval
  car_price_per_day :: nat
  car_currency :: jstr
  car_features :: "jstr list"
  car_image :: jstr

record restaurant =
  rs_id :: nat
  rs_name :: jstr
  rs_cuisine :: jval
  rs_location :: jval
  rs_rating :: rat
  rs_price_range :: jstr
  rs_open_hours :: jstr
  rs_specialties :: "jstr list"
  rs_image :: jstr

record health_report =
  hl_status :: jstr
  hl_timestamp :: jstr
  hl_service :: jstr
  hl_version :: jstr

text \<open>The JSON bodies the non-streaming handlers send with \<open>res.json\<close>.\<close>

datatype resp_body =
    BHealth health_report
  | BDestinations "destination_entry list"
  | BTips "jstr list"
  | BFlights "flight list" jval
  | BHotels "hotel list" jval
  | BCars "car list" jval
  | BRestaurants "restaurant list" jval
  | BServerError jstr jstr
  | BNotFound jstr jstr

section \<open>The fixed catalogs\<close>

definition health_body :: "jstr \<Rightarrow> health_report" where
  "health_body ts = \<lparr>hl_status = js ''healthy'', hl_timestamp = ts,
     hl_service = js ''Smart Trip Planner Backend'', hl_version = js ''1.0.0''\<rparr>"

definition destinations :: "destination_entry list" where
  "destinations =
    [\<lparr>dst_id = 1, dst_name = js ''Paris, France'', dst_description = js ''City of Love and Lights''\<rparr>,
     \<lparr>dst_id = 2, dst_name = js ''Tokyo, Japan'', dst_description = js ''Modern metropolis with rich culture''\<rparr>,
     \<lparr>dst_id = 3, dst_name = js ''New York, USA'', dst_description = js ''The Big Apple''\<rparr>,
     \<lparr>dst_id = 4, dst_name = js ''London, England'', dst_description = js ''Historic and modern blend''\<rparr>,
     \<lparr>dst_id = 5, dst_name = js ''Dubai, UAE'', dst_description = js ''Luxury and innovation''\<rparr>,
     \<lparr>dst_id = 6, dst_name = js ''Rome, Italy'', dst_description = js ''Eternal City with ancient history''\<rparr>,
     \<lparr>dst_id = 7, dst_name = js ''Bali, Indonesia'', dst_description = js ''Tropical paradise''\<rparr>,
     \<lparr>dst_id = 8, dst_name = js ''Sydney, Australia'', dst_description = js ''Harbor city with iconic landmarks''\<rparr>]"

definition tips :: "jstr list" where
  "tips =
    [js ''Book flights in advance for better deals'',
     js ''Pack light and bring versatile clothing'',
     js ''Research local customs and etiquette'',
     js ''Keep digital and physical copies of important documents'',
     js ''Notify your bank about travel plans'',
     js ''Download offline maps and translation apps'',
     js ''Pack a universal power adapter'',
     js ''Consider travel insurance'']"

section \<open>The simulated searches\<close>

definition search_flights :: "jval \<Rightarrow> resp_body" where
  "search_flights body =
     (let from = get_field body (js ''from''); to = get_field body (js ''to'');
          f = js_or_lit from (JStr (js ''New York'')); t = js_or_lit to (JStr (js ''Dubai''))
      in BFlights
       [\<lparr>fl_id = 1, fl_airline = js ''Emirates'', fl_from = f, fl_to = t,
         fl_depart_time = js ''08:00'', fl_arrive_time = js ''20:30'', fl_duration = js ''12h 30m'',
         fl_price = 850, fl_stops = 0\<rparr>,
        \<lparr>fl_id = 2, fl_airline = js ''British Airways'', fl_from = f, fl_to = t,
         fl_depart_time = js ''14:15'', fl_arrive_time = js ''09:45+1'', fl_duration = js ''15h 30m'',
         fl_price = 720, fl_stops = 1\<rparr>,
        \<lparr>fl_id = 3, fl_airline = js ''Qatar Airways'', fl_from = f, fl_to = t,
         fl_depart_time = js ''22:00'', fl_arrive_time = js ''18:20+1'', fl_duration = js ''14h 20m'',
         fl_price = 890, fl_stops = 1\<rparr>] body)"

definition search_hotels :: "jval \<Rightarrow> resp_body" where
  "search_hotels body =
     (let l = js_or_lit (get_field body (js ''destination'')) (JStr (js ''Dubai''))
      in BHotels
       [\<lparr>ht_id = 1, ht_name = js ''Grand Palace Hotel'', ht_location = l, ht_rating = 5,
         ht_price = 250, ht_currency = js ''USD'',
         ht_amenities = [js ''Wi-Fi'', js ''Pool'', js ''Gym'', js ''Spa'', js ''Restaurant''],
         ht_image = js ''hotel1.jpg''\<rparr>,
        \<lparr>ht_id = 2, ht_name = js ''City Center Inn'', ht_location = l, ht_rating = 4,
         ht_price = 120, ht_currency = js ''USD'',
         ht_amenities = [js ''Wi-Fi'', js ''Breakfast'', js ''Gym''],
         ht_image = js ''hotel2.jpg''\<rparr>,
        \<lparr>ht_id = 3, ht_name = js ''Luxury Resort & Spa'', ht_location = l, ht_rating = 5,
         ht_price = 380, ht_currency = js ''USD'',
         ht_amenities = [js ''Wi-Fi'', js ''Pool'', js ''Spa'', js ''Beach Access'', js ''All-Inclusive''],
         ht_image = js ''hotel3.jpg''\<rparr>] body)"

definition search_cars :: "jval \<Rightarrow> resp_body" where
  "search_cars body =
     (let l = js_or_lit (get_field body (js ''location'')) (JStr (js ''Dubai Airport''))
      in BCars
       [\<lparr>car_id = 1, car_brand = js ''Toyota'', car_model = js ''Camry'', car_type = js ''Sedan'',
         car_location = l, car_price_per_day = 45, car_currency = js ''USD'',
         car_features = [js ''Automatic'', js ''A/C'', js ''GPS'', js ''4 Doors'', js ''5 Seats''],
         car_image = js ''car1.jpg''\<rparr>,
        \<lparr>car_id = 2, car_brand = js ''Nissan'', car_model = js ''Altima'', car_type = js ''SUV'',
         car_location = l, car_price_per_day = 65, car_currency = js ''USD'',
         car_features = [js ''Automatic'', js ''A/C'', js ''GPS'', js ''4WD'', js ''7 Seats''],
         car_image = js ''car2.jpg''\<rparr>,
        \<lparr>car_id = 3, car_brand = js ''BMW'', car_model = js ''3 Series'', car_type = js ''Luxury'',
         car_location = l, car_price_per_day = 120, car_currency = js ''USD'',
         car_features = [js ''Automatic'', js ''A/C'', js ''GPS'', js ''Leather'', js ''Premium Audio''],
         car_image = js ''car3.jpg''\<rparr>] body)"

definition search_restaurants :: "jval \<Rightarrow> resp_body" where
  "search_restaurants body =
     (let loc = get_field body (js ''location''); cui = get_field body (js ''cuisine'');
          l = js_or_lit loc (JStr (js ''Dubai''))
      in BRestaurants
       [\<lparr>rs_id = 1, rs_name = js ''The Golden Spoon'',
         rs_cuisine = js_or_lit cui (JStr (js ''International'')), rs_location = l, rs_rating = 4.8,
         rs_price_range = js ''$$$$'', rs_open_hours = js ''6:00 PM - 11:00 PM'',
         rs_specialties = [js ''Seafood'', js ''Steaks'', js ''Fine Dining''],
         rs_image = js ''restaurant1.jpg''\<rparr>,
        \<lparr>rs_id = 2, rs_name = js ''Street Food Paradise'',
         rs_cuisine = js_or_lit cui (JStr (js ''Local'')), rs_location = l, rs_rating = 4.5,
         rs_price_range = js ''$$'', rs_open_hours = js ''11:00 AM - 10:00 PM'',
         rs_specialties = [js ''Local Dishes'', js ''Casual Dining'', js ''Family Friendly''],
         rs_image = js ''restaurant2.jpg''\<rparr>,
        \<lparr>rs_id = 3, rs_name = js ''Rooftop Bistro'',
         rs_cuisine = js_or_lit cui (JStr (js ''Mediterranean'')), rs_location = l, rs_rating = 4.7,
         rs_price_range = js ''$$$'', rs_open_hours = js ''5:00 PM - 12:00 AM'',
         rs_specialties = [js ''Mediterranean'', js ''City Views'', js ''Cocktails''],
         rs_image = js ''restaurant3.jpg''\<rparr>] body)"

section \<open>The error bodies\<close>

text \<open>Lines 467--473: \<open>{error: 'Something went wrong!', message: err.message}\<close>.\<close>

definition server_error_body :: "jstr \<Rightarrow> resp_body" where
  "server_error_body msg = BServerError (js ''Something went wrong!'') msg"

text \<open>Lines 476--481: \<open>{error: 'Endpoint not found', path: req.originalUrl}\<close>.\<close>

definition not_found_body :: "jstr \<Rightarrow> resp_body" where
  "not_found_body url = BNotFound (js ''Endpoint not found'') url"

end
