(* ===== verification/IsoDate.thy ===== *)
theory IsoDate
  imports JsValue
begin

text \<open>
  \<open>new Date().toISOString()\<close>, which the health endpoint (\<open>src/backend/server.js\<close>,
  line 20) puts in its \<open>timestamp\<close>. The function belongs to the JavaScript runtime and
  is written from the ECMAScript specification (section 21.4.1, time values): a time
  value is a count of milliseconds since 1970-01-01T00:00:00Z; \<open>Day\<close>,
  \<open>DaysInYear\<close>, \<open>DayFromYear\<close>, \<open>YearFromTime\<close>, \<open>MonthFromTime\<close> and
  \<open>DateFromTime\<close> split it into calendar fields, and the string has the form
  \<open>YYYY-MM-DDTHH:mm:ss.sssZ\<close>, with \<open>+YYYYYY\<close> for a year past 9999. A time value
  beyond \<open>8.64e15\<close> is not a valid date and \<open>toISOString\<close> throws a
  \<open>RangeError\<close>, here \<open>None\<close>. Times are those of \<open>Date.now()\<close>, so never negative.
  The year is found by walking from 1970 one year at a time (\<open>year_walk\<close>); the
  lemmas show that this is the specification's \<open>YearFromTime\<close>, the largest year
  whose first day is not after the given day.
\<close>

definition ms_per_day :: nat where
  "ms_per_day = 86400000"

definition max_time :: nat where
  "max_time = 8640000000000000"

definition days_in_year :: "nat \<Rightarrow> nat" where
  "days_in_year y =
     (if y mod 4 \<noteq> 0 then 365 else if y mod 100 \<noteq> 0 then 366 else if y mod 400 \<noteq> 0 then 365
      else 366)"

text \<open>\<open>DayFromYear(y)\<close>, the specification's closed form.\<close>

definition day_from_year :: "int \<Rightarrow> int" where
  "day_from_year y =
     365 * (y - 1970) + (y - 1969) div 4 - (y - 1901) div 100 + (y - 1601) div 400"

function year_walk :: "nat \<Rightarrow> nat \<Rightarrow> nat \<times> nat" where
  "year_walk y d = (if days_in_year y \<le> d then year_walk (y + 1) (d - days_in_year y) else (y, d))"
  by pat_completeness auto
termination
  by (relation "measure snd") (auto simp: days_in_year_def)

declare year_walk.simps [simp del]

definition month_lengths :: "nat \<Rightarrow> nat list" where
  "month_lengths y =
     [31, if days_in_year y = 366 then 29 else 28, 31, 30, 31, 30, 31, 31, 30, 31, 30, 31]"

fun month_walk :: "nat list \<Rightarrow> nat \<Rightarrow> nat \<Rightarrow> nat \<times> nat" where
  "month_walk [] m d = (m, d)"
| "month_walk (l # ls) m d = (if d < l then (m, d) else month_walk ls (m + 1) (d - l))"

text \<open>A number written with at least \<open>w\<close> digits, padded with zeros on the left.\<close>

definition pad_num :: "nat \<Rightarrow> nat \<Rightarrow> jstr" where
  "pad_num w n = replicate (w - length (nat_to_jstr n)) 0x30 @ nat_to_jstr n"

definition year_str :: "nat \<Rightarrow> jstr" where
  "year_str y = (if y \<le> 9999 then pad_num 4 y else js ''+'' @ pad_num 6 y)"

definition to_iso_string :: "nat \<Rightarrow> jstr option" where
  "to_iso_string t =
     (if max_time < t then None
      else
        (let (y, dy) = year_walk 1970 (t div ms_per_day);
             (m, dd) = month_walk (month_lengths y) 0 dy;
             hh = t div 3600000 mod 24; mi = t div 60000 mod 60; ss = t div 1000 mod 60;
             ms = t mod 1000
         in Some (year_str y @ js ''-'' @ pad_num 2 (m + 1) @ js ''-'' @ pad_num 2 (dd + 1) @
                  js ''T'' @ pad_num 2 hh @ js '':'' @ pad_num 2 mi @ js '':'' @ pad_num 2 ss @
                  js ''.'' @ pad_num 3 ms @ js ''Z'')))"

text \<open>
  \<open>Date.parse\<close> on a string of the form \<open>toISOString\<close> writes for the years 0 to
  9999: fixed separators, digit fields, and the field ranges of the specification's
  Date Time String Format (an out-of-range field makes the string invalid, here
  \<open>None\<close>). The time value is \<open>MakeDate(MakeDay(y, m - 1, d), MakeTime(h, mi, s, ms))\<close>.
  The form \<open>24:00:00.000\<close>, which the format also admits, is not accepted here.
\<close>

definition iso_field :: "jstr \<Rightarrow> nat \<Rightarrow> nat \<Rightarrow> nat option" where
  "iso_field s i n =
     (let ds = take n (drop i s) in
      if length ds = n \<and> list_all is_digit ds then Some (parse_int ds) else None)"

definition parse_iso :: "jstr \<Rightarrow> int option" where
  "parse_iso s =
     (if length s = 24 \<and> s ! 4 = 0x2D \<and> s ! 7 = 0x2D \<and> s ! 10 = 0x54 \<and> s ! 13 = 0x3A \<and>
         s ! 16 = 0x3A \<and> s ! 19 = 0x2E \<and> s ! 23 = 0x5A
      then
        (case (iso_field s 0 4, iso_field s 5 2, iso_field s 8 2, iso_field s 11 2,
               iso_field s 14 2, iso_field s 17 2, iso_field s 20 3) of
           (Some y, Some mo, Some d, Some h, Some mi, Some sec, Some ms) \<Rightarrow>
             if 1 \<le> mo \<and> mo \<le> 12 \<and> 1 \<le> d \<and> d \<le> month_lengths y ! (mo - 1) \<and>
                h < 24 \<and> mi < 60 \<and> sec < 60
             then Some ((day_from_year (int y) + int (sum_list (take (mo - 1) (month_lengths y)))
                         + int d - 1) * int ms_per_day
                        + int (h * 3600000 + mi * 60000 + sec * 1000 + ms))
             else None
         | _ \<Rightarrow> None)
      else None)"

section \<open>Lemmas\<close>

lemma days_in_year_pos [simp]: "0 < days_in_year y"
  by (simp add: days_in_year_def)

lemma year_walk_step: "days_in_year y \<le> d \<Longrightarrow> year_walk y d = year_walk (y + 1) (d - days_in_year y)"
  and year_walk_stop: "d < days_in_year y \<Longrightarrow> year_walk y d = (y, d)"
  by (simp_all add: year_walk.simps [of y d])

lemma div_succ_step: "0 < (k::int) \<Longrightarrow> (x + 1) div k = x div k + (if (x + 1) mod k = 0 then 1 else 0)"
proof -
  assume k: "0 < k"
  have e: "(x + 1) div k = x div k + (x mod k + 1) div k"
    using div_add1_eq [of x 1 k] k by (cases "k = 1") (auto simp: mod_add_left_eq)
  have "(x mod k + 1) div k = (if (x + 1) mod k = 0 then 1 else 0)"
  proof (cases "x mod k + 1 = k")
    case True
    then have "(x + 1) mod k = 0" by (metis mod_add_left_eq mod_self)
    with True k show ?thesis by simp
  next
    case False
    then have lt: "x mod k + 1 < k" using k pos_mod_bound [of k x] by linarith
    then have "(x mod k + 1) div k = 0" using k by (simp add: div_pos_pos_trivial)
    moreover have "(x + 1) mod k = x mod k + 1" using lt k by (metis mod_add_left_eq mod_pos_pos_trivial pos_mod_sign add_nonneg_nonneg zero_le_one)
    ultimately show ?thesis using k by (smt (verit) pos_mod_sign)
  qed
  with e show ?thesis by simp
qed

lemma mod_shift_zero: "(x + c * (k::int)) mod k = 0 \<longleftrightarrow> x mod k = 0"
  by simp

definition leap_step :: "int \<Rightarrow> int" where
  "leap_step z = (if z mod 4 = 0 then 1 else 0) - (if z mod 100 = 0 then 1 else 0) + (if z mod 400 = 0 then 1 else 0)"

lemma day_from_year_step: "day_from_year (z + 1) = day_from_year z + 365 + leap_step z"
proof -
  have s4: "z - 1969 + 1 = z + (-492) * 4" and s100: "z - 1901 + 1 = z + (-19) * 100"
    and s400: "z - 1601 + 1 = z + (-4) * 400" by simp_all
  have a: "(z + 1 - 1969) div 4 = (z - 1969) div 4 + (if z mod 4 = 0 then 1 else 0)"
    using div_succ_step [of 4 "z - 1969"] unfolding s4 mod_shift_zero by (simp add: algebra_simps)
  have b: "(z + 1 - 1901) div 100 = (z - 1901) div 100 + (if z mod 100 = 0 then 1 else 0)"
    using div_succ_step [of 100 "z - 1901"] unfolding s100 mod_shift_zero by (simp add: algebra_simps)
  have c: "(z + 1 - 1601) div 400 = (z - 1601) div 400 + (if z mod 400 = 0 then 1 else 0)"
    using div_succ_step [of 400 "z - 1601"] unfolding s400 mod_shift_zero by (simp add: algebra_simps)
  show ?thesis unfolding day_from_year_def leap_step_def a b c by simp
qed

lemma leap_step_nonneg: "0 \<le> leap_step z"
proof -
  have "z mod 100 = 0 \<Longrightarrow> z mod 4 = 0"
    using dvd_trans [of "4::int" 100 z] by (simp add: dvd_eq_mod_eq_0)
  then show ?thesis unfolding leap_step_def by auto
qed

lemma day_from_year_Suc: "day_from_year (int y + 1) = day_from_year (int y) + int (days_in_year y)"
proof -
  have m: "int y mod int k = 0 \<longleftrightarrow> y mod k = 0" for k :: nat
    by (simp flip: of_nat_mod)
  have d: "y mod 100 = 0 \<Longrightarrow> y mod 4 = 0" "y mod 400 = 0 \<Longrightarrow> y mod 100 = 0"
    using dvd_trans [of "4::nat" 100 y] dvd_trans [of "100::nat" 400 y] by (simp_all add: dvd_eq_mod_eq_0)
  show ?thesis using m [of 4] m [of 100] m [of 400] d
    unfolding day_from_year_step leap_step_def days_in_year_def by auto
qed

lemma day_from_year_less: "z < z' \<Longrightarrow> day_from_year z < day_from_year z'"
proof (induction z' rule: int_gr_induct)
  case base
  then show ?case using day_from_year_step [of z] leap_step_nonneg [of z] by simp
next
  case (step i)
  then show ?case using day_from_year_step [of i] leap_step_nonneg [of i] by simp
qed

lemma day_from_year_le_iff [simp]: "day_from_year z \<le> day_from_year z' \<longleftrightarrow> z \<le> z'"
proof
  assume "day_from_year z \<le> day_from_year z'"
  then show "z \<le> z'" using day_from_year_less [of z' z] by linarith
next
  assume "z \<le> z'"
  then show "day_from_year z \<le> day_from_year z'" using day_from_year_less [of z z'] by (cases "z = z'") auto
qed

lemma year_walk_inv:
  "year_walk y d = (y', r) \<Longrightarrow>
     day_from_year (int y') + int r = day_from_year (int y) + int d \<and> r < days_in_year y' \<and> y \<le> y'"
proof (induction y d arbitrary: y' r rule: year_walk.induct)
  case (1 y d)
  show ?case
  proof (cases "days_in_year y \<le> d")
    case True
    with "1.prems" have w: "year_walk (y + 1) (d - days_in_year y) = (y', r)"
      by (simp add: year_walk.simps [of y d])
    have "day_from_year (1 + int y) = day_from_year (int y) + int (days_in_year y)"
      using day_from_year_Suc [of y] by (simp add: add.commute)
    with "1.IH" [OF True w] True show ?thesis by simp
  next
    case False
    with "1.prems" show ?thesis by (simp add: year_walk.simps [of y d])
  qed
qed

lemma day_from_year_1970 [simp]: "day_from_year 1970 = 0"
  by (simp add: day_from_year_def)

lemma year_from_time:
  "year_walk 1970 d = (y, r) \<Longrightarrow>
     int d = day_from_year (int y) + int r \<and> r < days_in_year y \<and>
     (\<forall>z. day_from_year z \<le> int d \<longleftrightarrow> z \<le> int y)"
proof -
  assume w: "year_walk 1970 d = (y, r)"
  from year_walk_inv [OF w] have e: "int d = day_from_year (int y) + int r" and r: "r < days_in_year y"
    by simp_all
  have "day_from_year z \<le> int d \<longleftrightarrow> z \<le> int y" for z
  proof
    assume "day_from_year z \<le> int d"
    moreover have "int d < day_from_year (int y + 1)" using e r day_from_year_Suc [of y] by simp
    ultimately have "day_from_year z < day_from_year (int y + 1)" by simp
    then show "z \<le> int y" using day_from_year_le_iff [of "int y + 1" z] by linarith
  next
    assume "z \<le> int y"
    then show "day_from_year z \<le> int d" using e day_from_year_le_iff [of z "int y"] by linarith
  qed
  with e r show ?thesis by blast
qed
lemma sum_month_lengths [simp]: "sum_list (month_lengths y) = days_in_year y"
  by (simp add: month_lengths_def days_in_year_def)

lemma length_month_lengths [simp]: "length (month_lengths y) = 12"
  by (simp add: month_lengths_def)

lemma month_walk_inv:
  "d < sum_list ls \<Longrightarrow> month_walk ls m d = (m', r) \<Longrightarrow>
     m \<le> m' \<and> m' - m < length ls \<and> r < ls ! (m' - m) \<and> sum_list (take (m' - m) ls) + r = d"
proof (induction ls arbitrary: m d)
  case Nil
  then show ?case by simp
next
  case (Cons l ls)
  show ?case
  proof (cases "d < l")
    case True
    with Cons.prems show ?thesis by simp
  next
    case False
    with Cons.prems have w: "month_walk ls (m + 1) (d - l) = (m', r)" and s: "d - l < sum_list ls"
      by simp_all
    from Cons.IH [OF s w] have h: "Suc m \<le> m'" "m' - Suc m < length ls" "r < ls ! (m' - Suc m)"
      "sum_list (take (m' - Suc m) ls) + r = d - l" by simp_all
    then have e: "m' - m = Suc (m' - Suc m)" by arith
    show ?thesis unfolding e using h False by simp
  qed
qed

lemma pad_num_length [simp]: "n < 10 ^ w \<Longrightarrow> 0 < w \<Longrightarrow> length (pad_num w n) = w"
  using length_nat_to_jstr [of n w] by (simp add: pad_num_def)

lemma pad_num_digits: "list_all is_digit (pad_num w n)"
  using nat_to_jstr_digits [of n] by (simp add: pad_num_def is_digit_def list_all_iff set_replicate_conv_if)

lemma parse_pad_num [simp]: "parse_int (pad_num w n) = n"
  by (simp add: pad_num_def)

lemma time_of_day:
  "(t::nat) = t div 86400000 * 86400000 +
       (t div 3600000 mod 24 * 3600000 + t div 60000 mod 60 * 60000 + t div 1000 mod 60 * 1000 +
        t mod 1000)"
proof -
  define a where "a = t div 1000"
  define b where "b = a div 60"
  define c where "c = b div 60"
  have t1: "t div 60000 = b"
    using div_mult2_eq [of t 1000 60] by (simp add: a_def b_def)
  have t2: "t div 3600000 = c"
    using div_mult2_eq [of t 60000 60] t1 by (simp add: c_def)
  have t3: "t div 86400000 = c div 24"
    using div_mult2_eq [of t 3600000 24] t2 by simp
  have "t = 1000 * a + t mod 1000" "a = 60 * b + a mod 60" "b = 60 * c + b mod 60"
    "c = 24 * (c div 24) + c mod 24"
    by (simp_all add: a_def b_def c_def)
  then show ?thesis unfolding t1 t2 t3 a_def [symmetric] by linarith
qed

lemma year_walk_bound:
  assumes w: "year_walk 1970 d = (y, r)" and d: "d < 2932897"
  shows "y \<le> 9999"
proof (rule ccontr)
  assume "\<not> y \<le> 9999"
  then have "(10000::int) \<le> int y" by simp
  with year_from_time [OF w] have "day_from_year 10000 \<le> int d" by blast
  moreover have "day_from_year 10000 = 2932897" by (simp add: day_from_year_def)
  ultimately show False using d by simp
qed

lemma month_lengths_le_31: "m < 12 \<Longrightarrow> month_lengths y ! m \<le> 31"
  by (simp add: month_lengths_def nth_Cons split: nat.splits)

lemma iso_string_roundtrip:
  "t < 253402300800000 \<Longrightarrow>
     \<exists>s. to_iso_string t = Some s \<and> length s = 24 \<and> parse_iso s = Some (int t)"
proof -
  assume tb: "t < 253402300800000"
  obtain y dy where yw: "year_walk 1970 (t div ms_per_day) = (y, dy)" by (cases "year_walk 1970 (t div ms_per_day)")
  obtain m dd where mw: "month_walk (month_lengths y) 0 dy = (m, dd)" by (cases "month_walk (month_lengths y) 0 dy")
  have db: "t div ms_per_day < 2932897" using tb by (simp add: ms_per_day_def less_mult_imp_div_less)
  from year_from_time [OF yw] have ye: "int (t div ms_per_day) = day_from_year (int y) + int dy"
    and dyb: "dy < days_in_year y" by simp_all
  have y4: "y \<le> 9999" by (rule year_walk_bound [OF yw db])
  from month_walk_inv [of dy "month_lengths y" 0 m dd] dyb mw
  have m12: "m < 12" and ddb: "dd < month_lengths y ! m" and msum: "sum_list (take m (month_lengths y)) + dd = dy"
    by simp_all
  have dd31: "dd < 31" using ddb month_lengths_le_31 [OF m12, of y] by simp
  define mo where "mo = m + 1"
  define da where "da = dd + 1"
  define h where "h = t div 3600000 mod 24"
  define mi where "mi = t div 60000 mod 60"
  define sec where "sec = t div 1000 mod 60"
  define ms where "ms = t mod 1000"
  define s where "s = pad_num 4 y @ [0x2D] @ pad_num 2 mo @ [0x2D] @ pad_num 2 da @ [0x54] @
     pad_num 2 h @ [0x3A] @ pad_num 2 mi @ [0x3A] @ pad_num 2 sec @ [0x2E] @ pad_num 3 ms @ [0x5A]"
  have lens [simp]: "length (pad_num 4 y) = 4" "length (pad_num 2 mo) = 2" "length (pad_num 2 da) = 2"
    "length (pad_num 2 h) = 2" "length (pad_num 2 mi) = 2" "length (pad_num 2 sec) = 2" "length (pad_num 3 ms) = 3"
    using y4 m12 dd31 by (simp_all add: mo_def da_def h_def mi_def sec_def ms_def)
  have iso: "to_iso_string t = Some s"
    using tb yw mw y4 by (simp add: to_iso_string_def max_time_def year_str_def s_def mo_def da_def h_def mi_def sec_def ms_def)
  have len: "length s = 24" by (simp add: s_def)
  have fld: "iso_field s 0 4 = Some y" "iso_field s 5 2 = Some mo" "iso_field s 8 2 = Some da"
    "iso_field s 11 2 = Some h" "iso_field s 14 2 = Some mi" "iso_field s 17 2 = Some sec"
    "iso_field s 20 3 = Some ms"
    by (simp_all add: iso_field_def s_def pad_num_digits)
  have sep: "s ! 4 = 0x2D" "s ! 7 = 0x2D" "s ! 10 = 0x54" "s ! 13 = 0x3A" "s ! 16 = 0x3A" "s ! 19 = 0x2E" "s ! 23 = 0x5A"
    by (simp_all add: s_def nth_append)
  have rng: "h < 24" "mi < 60" "sec < 60" by (simp_all add: h_def mi_def sec_def)
  have "(day_from_year (int y) + int (sum_list (take m (month_lengths y))) + int (dd + 1) - 1) * int ms_per_day
        + int (h * 3600000 + mi * 60000 + sec * 1000 + ms) = int t"
  proof -
    have "int t = int (t div ms_per_day) * 86400000 + int (h * 3600000 + mi * 60000 + sec * 1000 + ms)"
      using time_of_day [of t] unfolding h_def mi_def sec_def ms_def ms_per_day_def by linarith
    then show ?thesis using ye msum by (simp add: ms_per_day_def algebra_simps)
  qed
  then have "parse_iso s = Some (int t)"
    using len fld sep rng m12 ddb by (simp add: parse_iso_def mo_def da_def)
  with iso len show ?thesis by blast
qed

text \<open>
  The calendar fields \<open>toISOString\<close> prints are those of the specification: for the
  day number \<open>d\<close> of a time value, the year found by the walk is \<open>YearFromTime\<close>,
  the largest year whose first day is not after \<open>d\<close>; the month is one of twelve, the
  date lies inside that month, and year start, the lengths of the months before and
  the date add up to \<open>d\<close> again.
\<close>

lemma calendar_fields:
  "year_walk 1970 d = (y, dy) \<Longrightarrow> month_walk (month_lengths y) 0 dy = (m, dd) \<Longrightarrow>
     (\<forall>z. day_from_year z \<le> int d \<longleftrightarrow> z \<le> int y) \<and> m < 12 \<and> dd < month_lengths y ! m \<and>
     int d = day_from_year (int y) + int (sum_list (take m (month_lengths y))) + int dd"
proof -
  assume yw: "year_walk 1970 d = (y, dy)" and mw: "month_walk (month_lengths y) 0 dy = (m, dd)"
  from year_from_time [OF yw] have e: "int d = day_from_year (int y) + int dy"
    and b: "dy < days_in_year y" and mx: "\<forall>z. day_from_year z \<le> int d \<longleftrightarrow> z \<le> int y"
    by blast+
  from month_walk_inv [of dy "month_lengths y" 0 m dd] b mw
  have "m < 12" "dd < month_lengths y ! m" "sum_list (take m (month_lengths y)) + dd = dy"
    by simp_all
  with e mx show ?thesis by simp
qed

end
