(* ===== verification/App.thy ===== *)
theory App
  imports Handler Catalog IsoDate
begin

text \<open>
  The Express application of \<open>src/backend/server.js\<close> as a whole: the middleware
  \<open>cors()\<close> and \<open>express.json()\<close> (lines 13--14), the route layers in the order the
  file registers them (lines 17--464), the error middleware (lines 467--473) and the
  catch-all 404 handler (lines 476--481). \<open>app.use('*', ...)\<close> is Express 4
  syntax (Express 5 rejects the pattern \<open>*\<close>), so the routing is Express 4's: a route
  path matches the path of the URL (up to \<open>?\<close>) case-insensitively, with one optional
  trailing slash; a \<open>GET\<close> route also answers \<open>HEAD\<close>; the first matching layer
  handles the request. The \<open>cors()\<close> defaults answer every \<open>OPTIONS\<close> request with 204
  before routing. \<open>express.json()\<close> leaves \<open>{}\<close> as the body of a request without a
  JSON body, and passes a parse error (the library's message) to the error middleware,
  which answers 500 whatever the error's own status. A handler that throws
  synchronously (here only \<open>toISOString\<close> on an invalid time) reaches the same
  middleware.
\<close>

datatype http_method = GET | HEAD | POST | OPTIONS | OtherMethod string

text \<open>What \<open>express.json()\<close> makes of the request body: none to parse, a parsed
  value (an object or an array, the parser being strict), or a parse error.\<close>

datatype body_input = BodyAbsent | BodyParsed jval | BodyRejected jstr

record http_request =
  rq_method :: http_method
  rq_url :: jstr
  rq_body :: body_input

datatype app_response =
    JsonReply nat resp_body
  | StreamReply out_log handler_outcome
  | EmptyReply nat

section \<open>Route matching\<close>

text \<open>\<open>req.path\<close>: the URL up to its query string.\<close>

definition url_path :: "jstr \<Rightarrow> jstr" where
  "url_path url = takeWhile (\<lambda>c. c \<noteq> 0x3F) url"

text \<open>One character of a route path against one of the request path, under the
  regular expression flag \<open>i\<close>: a lowercase ASCII letter also matches its uppercase
  form; every other character matches itself.\<close>

definition ci_char :: "cu \<Rightarrow> cu \<Rightarrow> bool" where
  "ci_char l c \<longleftrightarrow> c = l \<or> (0x61 \<le> l \<and> l \<le> 0x7A \<and> c = l - 0x20)"

fun path_chars_match :: "jstr \<Rightarrow> jstr \<Rightarrow> bool" where
  "path_chars_match [] [] = True"
| "path_chars_match (l # ls) (c # cs) = (ci_char l c \<and> path_chars_match ls cs)"
| "path_chars_match _ _ = False"

text \<open>The regular expression \<open>^\/route\/?$\<close> with flag \<open>i\<close> that Express 4 builds for a
  route path (\<open>strict\<close> and \<open>sensitive\<close> off, \<open>end\<close> on).\<close>

definition path_matches :: "jstr \<Rightarrow> jstr \<Rightarrow> bool" where
  "path_matches lit p \<longleftrightarrow> path_chars_match lit p \<or> path_chars_match (lit @ [0x2F]) p"

datatype route_verb = RGet | RPost

fun handles :: "route_verb \<Rightarrow> http_method \<Rightarrow> bool" where
  "handles RGet m \<longleftrightarrow> m = GET \<or> m = HEAD"
| "handles RPost m \<longleftrightarrow> m = POST"

section \<open>The handlers and the layer stack\<close>

text \<open>\<open>GET /health\<close>: \<open>new Date().toISOString()\<close> throws on an invalid time value,
  and the error middleware answers.\<close>

definition health_handler :: "server_env \<Rightarrow> app_response" where
  "health_handler env =
     (case to_iso_string (clock env) of
        None \<Rightarrow> JsonReply 500 (server_error_body (js ''Invalid time value''))
      | Some ts \<Rightarrow> JsonReply 200 (BHealth (health_body ts)))"

definition generate_handler :: "server_env \<Rightarrow> ai_service \<Rightarrow> jval \<Rightarrow> app_response" where
  "generate_handler env ai b =
     (case generate_itinerary env ai (request_of_body b) of (lg, out) \<Rightarrow> StreamReply lg out)"

type_synonym layer = "route_verb \<times> jstr \<times> (jval \<Rightarrow> app_response)"

definition routes :: "server_env \<Rightarrow> ai_service \<Rightarrow> layer list" where
  "routes env ai =
    [(RGet, js ''/health'', \<lambda>_. health_handler env),
     (RPost, js ''/generate-itinerary'', generate_handler env ai),
     (RGet, js ''/destinations'', \<lambda>_. JsonReply 200 (BDestinations destinations)),
     (RGet, js ''/tips'', \<lambda>_. JsonReply 200 (BTips tips)),
     (RPost, js ''/search-flights'', \<lambda>b. JsonReply 200 (search_flights b)),
     (RPost, js ''/search-hotels'', \<lambda>b. JsonReply 200 (search_hotels b)),
     (RPost, js ''/search-cars'', \<lambda>b. JsonReply 200 (search_cars b)),
     (RPost, js ''/search-restaurants'', \<lambda>b. JsonReply 200 (search_restaurants b))]"

text \<open>The router: the first layer whose verb handles the method and whose path
  matches serves the request; past the last one the catch-all answers 404 with
  \<open>req.originalUrl\<close>, the URL as the client sent it.\<close>

fun dispatch :: "layer list \<Rightarrow> http_method \<Rightarrow> jstr \<Rightarrow> jstr \<Rightarrow> jval \<Rightarrow> app_response" where
  "dispatch [] m p url b = JsonReply 404 (not_found_body url)"
| "dispatch ((v, lit, h) # ls) m p url b =
     (if handles v m \<and> path_matches lit p then h b else dispatch ls m p url b)"

definition parse_stage :: "body_input \<Rightarrow> jstr + jval" where
  "parse_stage bi =
     (case bi of
        BodyAbsent \<Rightarrow> Inr (JObj [])
      | BodyParsed v \<Rightarrow> Inr v
      | BodyRejected msg \<Rightarrow> Inl msg)"

definition app :: "server_env \<Rightarrow> ai_service \<Rightarrow> http_request \<Rightarrow> app_response" where
  "app env ai rq =
     (if rq_method rq = OPTIONS then EmptyReply 204
      else
        (case parse_stage (rq_body rq) of
           Inl msg \<Rightarrow> JsonReply 500 (server_error_body msg)
         | Inr b \<Rightarrow> dispatch (routes env ai) (rq_method rq) (url_path (rq_url rq)) (rq_url rq) b))"

section \<open>The routing table the application promises\<close>

text \<open>
  The endpoints as a table: the lowercase path without its trailing slash selects an
  endpoint, which answers only its own verb. The refinement theorem below shows that
  the layer scan of \<open>dispatch\<close> serves exactly this table.
\<close>

datatype endpoint = Health | Generate | Destinations | Tips | Flights | Hotels | Cars | Restaurants

definition ascii_lower :: "cu \<Rightarrow> cu" where
  "ascii_lower c = (if 0x41 \<le> c \<and> c \<le> 0x5A then c + 0x20 else c)"

definition canon_path :: "jstr \<Rightarrow> jstr" where
  "canon_path p =
     (let q = map ascii_lower p in if q \<noteq> [] \<and> last q = 0x2F then butlast q else q)"

text \<open>A route path as the file writes them: no uppercase letter, not empty, no
  trailing slash.\<close>

definition lit_char :: "cu \<Rightarrow> bool" where
  "lit_char l \<longleftrightarrow> \<not> (0x41 \<le> l \<and> l \<le> 0x5A)"

definition route_lit :: "jstr \<Rightarrow> bool" where
  "route_lit lit \<longleftrightarrow> list_all lit_char lit \<and> lit \<noteq> [] \<and> last lit \<noteq> 0x2F"

definition endpoint_table :: "(jstr \<times> route_verb \<times> endpoint) list" where
  "endpoint_table =
    [(js ''/health'', RGet, Health), (js ''/generate-itinerary'', RPost, Generate),
     (js ''/destinations'', RGet, Destinations), (js ''/tips'', RGet, Tips),
     (js ''/search-flights'', RPost, Flights), (js ''/search-hotels'', RPost, Hotels),
     (js ''/search-cars'', RPost, Cars), (js ''/search-restaurants'', RPost, Restaurants)]"

definition endpoint_of :: "http_method \<Rightarrow> jstr \<Rightarrow> endpoint option" where
  "endpoint_of m p =
     (case map_of endpoint_table (canon_path p) of
        Some (v, e) \<Rightarrow> if handles v m then Some e else None
      | None \<Rightarrow> None)"

fun serve :: "server_env \<Rightarrow> ai_service \<Rightarrow> endpoint \<Rightarrow> jval \<Rightarrow> app_response" where
  "serve env ai Health b = health_handler env"
| "serve env ai Generate b = generate_handler env ai b"
| "serve env ai Destinations b = JsonReply 200 (BDestinations destinations)"
| "serve env ai Tips b = JsonReply 200 (BTips tips)"
| "serve env ai Flights b = JsonReply 200 (search_flights b)"
| "serve env ai Hotels b = JsonReply 200 (search_hotels b)"
| "serve env ai Cars b = JsonReply 200 (search_cars b)"
| "serve env ai Restaurants b = JsonReply 200 (search_restaurants b)"

section \<open>Lemmas\<close>

lemma ci_char_lower: "lit_char l \<Longrightarrow> ci_char l c \<longleftrightarrow> ascii_lower c = l"
proof -
  assume "lit_char l"
  then have nl: "\<not> (65 \<le> unat l \<and> unat l \<le> 90)" by (simp add: lit_char_def word_le_nat_alt)
  have ul: "unat l < 65536" and uc: "unat c < 65536" using unsigned_less [of l] unsigned_less [of c] by simp_all
  have add: "unat (c + 0x20) = (unat c + 32) mod 65536" by (simp add: unat_word_ariths)
  have sub: "0x20 \<le> l \<Longrightarrow> unat (l - 0x20) = unat l - 32" by (simp add: unat_sub word_le_nat_alt)
  show ?thesis
    unfolding ci_char_def ascii_lower_def word_unat_eq_iff word_le_nat_alt
    using nl ul uc add sub by (auto simp: word_le_nat_alt)
qed

lemma path_chars_match_lower:
  "list_all lit_char lit \<Longrightarrow> path_chars_match lit p \<longleftrightarrow> map ascii_lower p = lit"
proof (induction lit arbitrary: p)
  case Nil
  then show ?case by (cases p) simp_all
next
  case (Cons l ls)
  then show ?case by (cases p) (simp_all add: ci_char_lower)
qed

lemma path_matches_canon: "route_lit lit \<Longrightarrow> path_matches lit p \<longleftrightarrow> canon_path p = lit"
proof -
  assume r: "route_lit lit"
  then have a: "list_all lit_char lit" and a': "list_all lit_char (lit @ [0x2F])"
    and ne: "lit \<noteq> []" and nl: "last lit \<noteq> 0x2F"
    by (simp_all add: route_lit_def lit_char_def)
  show ?thesis
  proof (cases "map ascii_lower p \<noteq> [] \<and> last (map ascii_lower p) = 0x2F")
    case True
    then have "map ascii_lower p = butlast (map ascii_lower p) @ [0x2F]"
      by (metis append_butlast_last_id)
    then have "map ascii_lower p = lit @ [0x2F] \<longleftrightarrow> butlast (map ascii_lower p) = lit"
      by (metis butlast_snoc)
    moreover have "map ascii_lower p \<noteq> lit" using True nl by auto
    ultimately show ?thesis using True
      by (simp add: path_matches_def path_chars_match_lower [OF a] path_chars_match_lower [OF a'] canon_path_def)
  next
    case False
    then have "map ascii_lower p \<noteq> lit @ [0x2F]" by auto
    then have "canon_path p = map ascii_lower p" using False by (auto simp: canon_path_def Let_def)
    with False \<open>map ascii_lower p \<noteq> lit @ [0x2F]\<close> show ?thesis
      by (simp add: path_matches_def path_chars_match_lower [OF a] path_chars_match_lower [OF a'])
  qed
qed

lemma dispatch_map_of:
  "distinct (map (\<lambda>(v, lit, h). lit) ls) \<Longrightarrow> list_all (\<lambda>(v, lit, h). route_lit lit) ls \<Longrightarrow>
   dispatch ls m p url b =
     (case map_of (map (\<lambda>(v, lit, h). (lit, (v, h))) ls) (canon_path p) of
        Some (v, h) \<Rightarrow> if handles v m then h b else JsonReply 404 (not_found_body url)
      | None \<Rightarrow> JsonReply 404 (not_found_body url))"
proof (induction ls)
  case Nil
  then show ?case by simp
next
  case (Cons x ls)
  obtain v lit h where x: "x = (v, lit, h)" by (cases x)
  from Cons.prems x have r: "route_lit lit" and d: "distinct (map (\<lambda>(v, lit, h). lit) ls)"
    and a: "list_all (\<lambda>(v, lit, h). route_lit lit) ls" and n: "lit \<notin> set (map (\<lambda>(v, lit, h). lit) ls)"
    by simp_all
  note ih = Cons.IH [OF d a]
  show ?case
  proof (cases "canon_path p = lit")
    case True
    have "map_of (map (\<lambda>(v, lit, h). (lit, (v, h))) ls) lit = None"
      using n by (fastforce simp: map_of_eq_None_iff image_iff)
    with True ih x show ?thesis by (simp add: path_matches_canon [OF r])
  next
    case False
    with ih x show ?thesis by (simp add: path_matches_canon [OF r])
  qed
qed

lemma routes_table:
  "map (\<lambda>(v, lit, h). (lit, (v, h))) (routes env ai) =
   map (\<lambda>(lit, v, e). (lit, (v, serve env ai e))) endpoint_table"
proof -
  have "serve env ai Health = (\<lambda>_. health_handler env)" "serve env ai Generate = generate_handler env ai"
    "serve env ai Destinations = (\<lambda>_. JsonReply 200 (BDestinations destinations))"
    "serve env ai Tips = (\<lambda>_. JsonReply 200 (BTips tips))"
    "serve env ai Flights = (\<lambda>b. JsonReply 200 (search_flights b))"
    "serve env ai Hotels = (\<lambda>b. JsonReply 200 (search_hotels b))"
    "serve env ai Cars = (\<lambda>b. JsonReply 200 (search_cars b))"
    "serve env ai Restaurants = (\<lambda>b. JsonReply 200 (search_restaurants b))"
    by (rule ext, simp)+
  then show ?thesis by (simp add: routes_def endpoint_table_def)
qed

lemma routes_lits: "map (\<lambda>(v, lit, h). lit) (routes env ai) = map fst endpoint_table"
  by (simp add: routes_def endpoint_table_def)

lemma endpoint_table_lits: "distinct (map fst endpoint_table) \<and> list_all route_lit (map fst endpoint_table)"
  by code_simp

lemma routes_wf:
  "distinct (map (\<lambda>(v, lit, h). lit) (routes env ai)) \<and> list_all (\<lambda>(v, lit, h). route_lit lit) (routes env ai)"
proof -
  have "list_all (\<lambda>(v, lit, h). route_lit lit) (routes env ai) \<longleftrightarrow>
        list_all route_lit (map (\<lambda>(v, lit, h). lit) (routes env ai))"
    by (simp add: list_all_iff split_def)
  with endpoint_table_lits show ?thesis unfolding routes_lits by simp
qed

lemma map_of_table_map:
  "map_of (map (\<lambda>(lit, v, e). (lit, (v, f e))) tbl) q = map_option (\<lambda>(v, e). (v, f e)) (map_of tbl q)"
  by (induction tbl) auto

lemma dispatch_routes:
  "dispatch (routes env ai) m p url b =
     (case endpoint_of m p of
        Some e \<Rightarrow> serve env ai e b
      | None \<Rightarrow> JsonReply 404 (not_found_body url))"
  unfolding dispatch_map_of [OF conjunct1 [OF routes_wf] conjunct2 [OF routes_wf]]
    routes_table map_of_table_map endpoint_of_def
  by (auto split: option.splits)

lemma app_eq:
  "app env ai rq =
     (if rq_method rq = OPTIONS then EmptyReply 204
      else
        (case parse_stage (rq_body rq) of
           Inl msg \<Rightarrow> JsonReply 500 (server_error_body msg)
         | Inr b \<Rightarrow>
             (case endpoint_of (rq_method rq) (url_path (rq_url rq)) of
                Some e \<Rightarrow> serve env ai e b
              | None \<Rightarrow> JsonReply 404 (not_found_body (rq_url rq)))))"
  by (simp add: app_def dispatch_routes split: sum.splits)

lemma endpoint_of_health: "endpoint_of GET (url_path (js ''/health'')) = Some Health"
  by code_simp

section \<open>Properties\<close>

text \<open>
  C5. The application refines its routing table: whatever the method, URL and body,
  the response is 204 for a preflight, 500 with the parser's message for a body that
  does not parse, otherwise the handler of the endpoint the lowercase path (trailing
  slash dropped, query ignored) selects for its verb, and 404 with the original URL
  where there is none. The order of the layers does not matter.
\<close>

theorem app_refines_endpoint_table:
  "app env ai rq =
     (if rq_method rq = OPTIONS then EmptyReply 204
      else
        (case parse_stage (rq_body rq) of
           Inl msg \<Rightarrow> JsonReply 500 (server_error_body msg)
         | Inr b \<Rightarrow>
             (case endpoint_of (rq_method rq) (url_path (rq_url rq)) of
                Some e \<Rightarrow> serve env ai e b
              | None \<Rightarrow> JsonReply 404 (not_found_body (rq_url rq)))))"
  unfolding app_def dispatch_map_of [OF conjunct1 [OF routes_wf] conjunct2 [OF routes_wf]]
    routes_table map_of_table_map endpoint_of_def
  by (auto split: option.splits sum.splits)

text \<open>
  C7. The health endpoint reports the server clock without loss: while the clock is
  before the year 10000, \<open>GET /health\<close> answers 200 with a timestamp of 24 code
  units that \<open>Date.parse\<close> reads back as the clock value.
\<close>

theorem health_timestamp_roundtrip:
  "clock env < 253402300800000 \<Longrightarrow>
     \<exists>ts. app env ai \<lparr>rq_method = GET, rq_url = js ''/health'', rq_body = BodyAbsent\<rparr> =
            JsonReply 200 (BHealth (health_body ts)) \<and> length ts = 24 \<and> parse_iso ts = Some (int (clock env))"
proof -
  assume c: "clock env < 253402300800000"
  from iso_string_roundtrip [OF c] obtain ts where
    ts: "to_iso_string (clock env) = Some ts" "length ts = 24" "parse_iso ts = Some (int (clock env))"
    by blast
  then have "app env ai \<lparr>rq_method = GET, rq_url = js ''/health'', rq_body = BodyAbsent\<rparr> =
      JsonReply 200 (BHealth (health_body ts))"
    by (simp add: app_eq parse_stage_def endpoint_of_health health_handler_def del: js_Cons)
  with ts show ?thesis by blast
qed

theorem health_timestamp_roundtrip_witness:
  "clock \<lparr>gemini_api_key = None, clock = 1700000000123\<rparr> < 253402300800000 \<and>
   (\<exists>ts. app \<lparr>gemini_api_key = None, clock = 1700000000123\<rparr> (\<lambda>_. AIFail [])
            \<lparr>rq_method = GET, rq_url = js ''/health'', rq_body = BodyAbsent\<rparr> =
          JsonReply 200 (BHealth (health_body ts)) \<and> length ts = 24 \<and> parse_iso ts = Some 1700000000123)"
  using health_timestamp_roundtrip [of "\<lparr>gemini_api_key = None, clock = 1700000000123\<rparr>" "\<lambda>_. AIFail []"]
  by simp

end
