(* ===== verification/Spec2Isabelle.thy ===== *)
theory Spec2Isabelle
  imports App
begin

text \<open>
  \<^bold>\<open>A verification model of the Smart Trip Planner backend.\<close>

  \<^emph>\<open>The program.\<close> \<open>src/backend/server.js\<close> is an Express 4 server. Its one
  endpoint with control flow, \<open>POST /generate-itinerary\<close> (lines 27--221), validates
  the request, streams the text of an itinerary as newline-separated JSON frames
  (\<open>{token}\<close>, then one \<open>{itinerary}\<close>, then one \<open>{metrics}\<close>), and ends the
  response. With a Gemini API key it streams the chunks of the external AI service and
  parses day plans out of the full text with \<open>extractDaysFromText\<close> (lines 224--258);
  without a key, or when the AI call throws, it runs \<open>generateDemoItinerary\<close>
  (lines 130--215), a fixed fallback. Around it, \<open>cors()\<close> and \<open>express.json()\<close>
  (lines 13--14), the health report (lines 17--24), fixed and request-echoing catalogs
  (lines 260--464), the error middleware and the 404 catch-all (lines 467--481).

  \<^emph>\<open>The theories, leaf first.\<close>
  \<^item> \<open>Prelude\<close>: strings as lists of UTF-16 code units (\<open>16 word\<close>); the JavaScript
    runtime functions the code calls (\<open>trim\<close>, \<open>split('\n')\<close>, \<open>substring\<close>,
    \<open>join\<close>, \<open>parseInt\<close> on digits) written from the ECMAScript specification; list
    and sublist lemmas.
  \<^item> \<open>JsValue\<close>: the JSON values of a request body, property reads, truthiness and
    \<open>||\<close>, \<open>ToString\<close> in template literals (with the \<open>TypeError\<close> of an
    object whose \<open>toString\<close> is not callable, and numbers printed from their double),
    \<open>?.join\<close> with its \<open>TypeError\<close>, and the error monad \<open>js_bind\<close> that threads
    these throws; decimal printing and its inverse \<open>parse_int (nat_to_jstr n) = n\<close>.
  \<^item> \<open>Itinerary\<close>: the day plan, itinerary and metrics objects, the three frame
    kinds, and the response as a log of events.
  \<^item> \<open>Request\<close> (RequestValidator): the request record read from the body,
    \<open>finalDestination\<close>, the validation guard, the defaults.
  \<^item> \<open>HeaderRegex\<close> and \<open>DayParser\<close> (TextSegmentParser): the day-header regex as
    the backtracking matcher the engine runs, \<open>exec\<close> with \<open>lastIndex\<close>, the
    double-\<open>exec\<close> loop \<open>extract_loop\<close>, the activity filter, the skeleton.
  \<^item> \<open>Fallback\<close> (FallbackGenerator): the 32 fragments exactly as the source file
    spells them (its emoji are mis-encoded, and the model keeps the code units the file
    contains), the hard-coded three days and the fixed metrics 50/300/350.
  \<^item> \<open>AiPath\<close> (AIStreamAdapter and MetricsEstimator): the prompt template, the
    external service as a parameter \<open>ai :: jstr \<Rightarrow> ai_outcome\<close>, the chunk loop,
    the AI itinerary and the length-based metrics.
  \<^item> \<open>Handler\<close> (GenerationOrchestrator and StreamDispatcher):
    \<open>generate_itinerary\<close>, with the \<open>try\<close>/\<open>catch\<close> that reruns the fallback, and
    \<open>resp_step\<close>, the response protocol of the specification's section 4.6.
  \<^item> \<open>Catalog\<close>: the catalog objects as records, \<open>search_flights\<close>,
    \<open>search_hotels\<close>, \<open>search_cars\<close>, \<open>search_restaurants\<close>, the 500 and 404 bodies.
  \<^item> \<open>IsoDate\<close>: \<open>Date.prototype.toISOString\<close> and \<open>Date.parse\<close> (runtime functions,
    written from the specification's time-value definitions) for the health timestamp.
  \<^item> \<open>App\<close>: the Express application: the route layers in registration order,
    \<open>dispatch\<close> (the first matching layer, else the 404 catch-all), Express 4 path
    matching, the \<open>cors()\<close> preflight and the \<open>express.json()\<close> stage; and the abstract
    routing table \<open>endpoint_of\<close>/\<open>serve\<close> it refines.

  \<^emph>\<open>What is proved.\<close> The parser: the \<open>lastIndex\<close> loop equals a single forward
  scan with the skeleton when no header matches, so no header is skipped; activities
  are at most five, non-empty, free of leading white space, and pieces of the text. The handler: every run
  follows the response protocol; the 400 path writes no frame; an AI failure is
  completed by the fallback after the tokens already sent; on success the summary's
  full text is the concatenation of the streamed tokens and its days are parsed from
  it; the defaults reach every summary; whenever the fallback runs, its banner, title,
  locations and sign-off name the destination. The request: the final destination is
  never the literal \<open>'Unknown Destination'\<close>. The metrics: the estimator is
  characterised exactly (floors of a quarter of the lengths, and a total one more
  than their sum exactly when the two remainders carry). The application: the layer
  scan serves exactly the routing table (\<open>App.app_refines_endpoint_table\<close>, a
  refinement whose proof shows that first-match over layers with distinct lowercase
  paths is a table lookup). The health report: \<open>toISOString\<close> computes the
  specification's calendar fields (\<open>IsoDate.calendar_fields\<close>), and its string
  parses back to the clock (\<open>App.health_timestamp_roundtrip\<close>). Behaviour the code
  has and the specification does not want is proved as such: an indented bullet
  keeps its marker, a multi-unit marker loses only its first unit, a non-array
  \<open>interests\<close> value leaves the response open forever, and a destination object
  with a \<open>toString\<close> key makes the template of the \<open>console.log\<close> at line 44
  throw before the \<open>try\<close>, so the response is left open after its headers
  (\<open>Handler.object_destination_never_ends\<close>). Values reach the templates through
  ECMAScript's \<open>ToString\<close> (\<open>JsValue.to_jstr\<close>), numbers through the double
  \<open>JSON.parse\<close> makes of them and the shortest-digits printing of
  \<open>Number.prototype.toString\<close>; below \<open>2^53\<close> this is the decimal of the integer
  (\<open>JsValue.num_str_safe\<close>).

  \<^emph>\<open>Loops and termination.\<close> The regex search (\<open>find_header\<close>) and the parser loop
  (\<open>extract_loop\<close>) are \<^theory_text>\<open>function\<close>s with measures
  \<open>length text + 1 - lastIndex\<close>: each match is at least nine units long and starts at
  or after \<open>lastIndex\<close>, so \<open>lastIndex\<close> grows strictly. The year walk of
  \<open>toISOString\<close> terminates on the measure of the remaining days (every year has at
  least 365). No fuel is needed.

  \<^emph>\<open>Not modelled.\<close> Timing (the 200 ms pacing; \<open>Date.now()\<close> is the parameter
  \<open>clock\<close>, a non-negative count of milliseconds), logging, client disconnect (the
  code only logs it), the JSON text of the frames and bodies (they are kept as values),
  JSON numbers with a fraction in request bodies, the headers \<open>cors()\<close> adds, the
  \<open>24:00\<close> and expanded-year forms of \<open>Date.parse\<close>, process start-up
  (\<open>dotenv\<close>, \<open>listen\<close>, the Gemini client object), and the libraries themselves:
  Express, \<open>cors\<close>, \<open>body-parser\<close> and path-to-regexp are modelled from their
  documented behaviour, the Gemini service is the parameter \<open>ai\<close>.

  \<^emph>\<open>Further work.\<close> The NDJSON encoding of the frames with a round trip;
  the handler as an \<^theory_text>\<open>inductive\<close> step relation with a refinement to
  \<open>generate_itinerary\<close>; the greedy one-pass characterisation of the header matcher.
\<close>

end
